theory Spec2Isabelle
  imports Main "HOL-Library.Sublist"
begin

section \<open>Kubernetes objects used by the discovery manager\<close>

text \<open>
  A Go \<^verbatim>\<open>map[string]string\<close> is a partial function; the nil map and the empty map are
  both \<open>Map.empty\<close>. Payloads the manager only copies (resource requirements, scheduling
  fields, env-from sources) are strings.
\<close>

type_synonym StringMap = "string \<rightharpoonup> string"

datatype EnvVarSource = FieldRef string | OtherEnvSource string

record EnvVar =
  env_Name :: string
  env_Value :: string
  env_ValueFrom :: "EnvVarSource option"

record VolumeMount =
  vm_Name :: string
  vm_ReadOnly :: bool
  vm_MountPath :: string

datatype VolumeSource = Secret string | OtherVolumeSource string

record Volume =
  vol_Name :: string
  vol_VolumeSource :: VolumeSource

record ContainerPort =
  cp_Name :: string
  cp_Protocol :: string
  cp_ContainerPort :: int

record Container =
  c_Name :: string
  c_Resources :: string
  c_Command :: "string list"
  c_Image :: string
  c_ImagePullPolicy :: string
  c_Env :: "EnvVar list"
  c_EnvFrom :: "string list"
  c_VolumeMounts :: "VolumeMount list"
  c_Ports :: "ContainerPort list"

record PodSpec =
  ps_Containers :: "Container list"
  ps_InitContainers :: "Container list"
  ps_Volumes :: "Volume list"
  ps_ServiceAccountName :: string
  ps_Skeleton :: string

record OwnerReference =
  or_Kind :: string
  or_Name :: string

record ObjectMeta =
  om_Name :: string
  om_Namespace :: string
  om_Labels :: StringMap
  om_Annotations :: StringMap
  om_OwnerReferences :: "OwnerReference list"

record PolicyRule =
  pr_APIGroups :: "string list"
  pr_Resources :: "string list"
  pr_ResourceNames :: "string list"
  pr_Verbs :: "string list"

record Role =
  role_ObjectMeta :: ObjectMeta
  role_Rules :: "PolicyRule list"

record ServiceAccount =
  sa_ObjectMeta :: ObjectMeta

record Subject =
  subj_Kind :: string
  subj_Name :: string

record RoleRef =
  rr_Kind :: string
  rr_Name :: string
  rr_APIGroup :: string

record RoleBinding =
  rb_ObjectMeta :: ObjectMeta
  rb_Subjects :: "Subject list"
  rb_RoleRef :: RoleRef

record PodTemplateSpec =
  pt_Labels :: StringMap
  pt_Annotations :: StringMap
  pt_Spec :: PodSpec

record DeploymentSpec =
  ds_Strategy :: string
  ds_Replicas :: "int option"
  ds_Selector :: StringMap
  ds_Template :: PodTemplateSpec

record Deployment =
  d_ObjectMeta :: ObjectMeta
  d_Spec :: DeploymentSpec

record ServicePort =
  sp_Name :: string
  sp_Port :: int
  sp_TargetPort :: int
  sp_Protocol :: string

record ServiceSpec =
  ss_Type :: string
  ss_Ports :: "ServicePort list"
  ss_Selector :: StringMap
  ss_IPFamilyPolicy :: "string option"
  ss_IPFamilies :: "string list"

record Service =
  svc_ObjectMeta :: ObjectMeta
  svc_Spec :: ServiceSpec

section \<open>Cluster objects\<close>

text \<open>
  \<open>ComponentAccessor\<close> holds what the accessor methods of the base discovery spec return
  (\<^verbatim>\<open>Env()\<close>, \<^verbatim>\<open>EnvFrom()\<close>, \<^verbatim>\<open>ImagePullPolicy()\<close>, \<^verbatim>\<open>AdditionalVolumeMounts()\<close>,
  \<^verbatim>\<open>AdditionalContainers()\<close>, \<^verbatim>\<open>InitContainers()\<close>, \<^verbatim>\<open>AdditionalVolumes()\<close>,
  \<^verbatim>\<open>Labels()\<close>, \<^verbatim>\<open>Annotations()\<close>, \<^verbatim>\<open>BuildPodSpec()\<close>).
\<close>

record ComponentAccessor =
  ca_Env :: "EnvVar list"
  ca_EnvFrom :: "string list"
  ca_ImagePullPolicy :: string
  ca_AdditionalVolumeMounts :: "VolumeMount list"
  ca_AdditionalContainers :: "Container list"
  ca_InitContainers :: "Container list"
  ca_AdditionalVolumes :: "Volume list"
  ca_Labels :: StringMap
  ca_Annotations :: StringMap
  ca_BuildPodSpec :: PodSpec

text \<open>
  A \<^verbatim>\<open>*v1alpha1.TidbCluster\<close>: the fields and method results the manager reads
  (\<^verbatim>\<open>GetName()\<close>, \<^verbatim>\<open>GetNamespace()\<close>, \<^verbatim>\<open>GetInstanceName()\<close>, \<^verbatim>\<open>Spec.PD\<close>,
  \<^verbatim>\<open>AcrossK8s()\<close>, \<^verbatim>\<open>Spec.PreferIPv6\<close>, \<^verbatim>\<open>Spec.Discovery.ResourceRequirements\<close>,
  \<^verbatim>\<open>Timezone()\<close>, \<^verbatim>\<open>BaseDiscoverySpec()\<close>, \<^verbatim>\<open>IsTLSClusterEnabled()\<close>,
  \<^verbatim>\<open>WithoutLocalPD()\<close>).
\<close>

record TidbCluster =
  tc_Name :: string
  tc_Namespace :: string
  tc_InstanceName :: string
  tc_Spec_PD :: "string option"
  tc_AcrossK8s :: bool
  tc_PreferIPv6 :: bool
  tc_DiscoveryResources :: string
  tc_Timezone :: string
  tc_BaseDiscoverySpec :: ComponentAccessor
  tc_IsTLSClusterEnabled :: bool
  tc_WithoutLocalPD :: bool

record DMCluster =
  dm_Name :: string
  dm_Namespace :: string
  dm_InstanceName :: string
  dm_DiscoveryResources :: string
  dm_Timezone :: string
  dm_BaseDiscoverySpec :: ComponentAccessor

text \<open>
  A \<^verbatim>\<open>client.Object\<close> interface value: nil, one of the two cluster types, or any other
  type (its \<^verbatim>\<open>%T\<close> name, object name and namespace). Every non-nil value carries the
  metadata accessors, since \<^verbatim>\<open>client.Object\<close> embeds \<^verbatim>\<open>metav1.Object\<close>.
\<close>

datatype clientObject =
    NilObject
  | TidbClusterObj TidbCluster
  | DMClusterObj DMCluster
  | OtherObject string string string

fun typeName :: "clientObject \<Rightarrow> string" where
  "typeName NilObject = ''<nil>''"
| "typeName (TidbClusterObj _) = ''*v1alpha1.TidbCluster''"
| "typeName (DMClusterObj _) = ''*v1alpha1.DMCluster''"
| "typeName (OtherObject t _ _) = t"

fun GetName :: "clientObject \<Rightarrow> string" where
  "GetName (TidbClusterObj c) = tc_Name c"
| "GetName (DMClusterObj c) = dm_Name c"
| "GetName (OtherObject _ n _) = n"
| "GetName NilObject = []"

fun GetNamespace :: "clientObject \<Rightarrow> string" where
  "GetNamespace (TidbClusterObj c) = tc_Namespace c"
| "GetNamespace (DMClusterObj c) = dm_Namespace c"
| "GetNamespace (OtherObject _ _ ns) = ns"
| "GetNamespace NilObject = []"

text \<open>The type assertion \<^verbatim>\<open>obj.(metav1.Object)\<close>: it fails on the nil interface only.\<close>

fun is_metav1_Object :: "clientObject \<Rightarrow> bool" where
  "is_metav1_Object NilObject = False"
| "is_metav1_Object _ = True"

section \<open>Errors\<close>

text \<open>
  \<open>PlainError\<close> is an error made by \<^verbatim>\<open>fmt.Errorf\<close> or returned by a library call,
  \<open>RequeueError\<close> one made by \<^verbatim>\<open>controller.RequeueErrorf\<close>, \<open>Panic\<close> a Go panic.
\<close>

datatype error = PlainError string | RequeueError string | Panic string

fun errorText :: "error \<Rightarrow> string" where
  "errorText (PlainError m) = m"
| "errorText (RequeueError m) = m"
| "errorText (Panic m) = m"

section \<open>Injected dependencies and constants of other packages\<close>

text \<open>
  Constants and helpers that the manager takes from other packages are fields of
  \<open>Dependencies\<close>:
  \<^verbatim>\<open>deps.CLIConfig.TiDBDiscoveryImage\<close>, \<^verbatim>\<open>controller.DiscoveryMemberName\<close>,
  \<^verbatim>\<open>controller.ContainerResource\<close>, \<^verbatim>\<open>util.ClusterTLSSecretName\<close>,
  \<^verbatim>\<open>label.PDLabelVal\<close>, \<^verbatim>\<open>controller.LastAppliedPodTemplate\<close>,
  \<^verbatim>\<open>v1alpha1.GroupName\<close>, \<^verbatim>\<open>v1alpha1.TiDBClusterName\<close>, \<^verbatim>\<open>v1alpha1.DMClusterName\<close>,
  \<^verbatim>\<open>controller.GetOwnerRef\<close>, \<^verbatim>\<open>controller.GetDMOwnerRef\<close>, the label scheme of package
  \<^verbatim>\<open>label\<close>, the strategic merge of one container with its patch, and \<^verbatim>\<open>json.Marshal\<close>
  on a pod spec.
\<close>

record Dependencies =
  TiDBDiscoveryImage :: string
  DiscoveryMemberName :: "string \<Rightarrow> string"
  ContainerResource :: "string \<Rightarrow> string"
  ClusterTLSSecretName :: "string \<Rightarrow> string \<Rightarrow> string"
  PDLabelVal :: string
  LastAppliedPodTemplate :: string
  GroupName :: string
  TiDBClusterName :: string
  DMClusterName :: string
  GetOwnerRef :: "TidbCluster \<Rightarrow> OwnerReference"
  GetDMOwnerRef :: "DMCluster \<Rightarrow> OwnerReference"
  label_New :: StringMap
  label_NewDM :: StringMap
  InstanceLabelKey :: string
  ComponentLabelKey :: string
  DiscoveryLabelVal :: string
  StrategicMergePatch :: "Container \<Rightarrow> Container \<Rightarrow> string + Container"
  json_Marshal :: "PodSpec \<Rightarrow> string + string"

text \<open>
  Modelled from the spec: the label scheme (package \<^verbatim>\<open>label\<close> is absent). A label set is
  a string map; \<^verbatim>\<open>Instance(name)\<close> sets the instance label, \<^verbatim>\<open>Discovery()\<close> sets the
  component label, \<^verbatim>\<open>Labels()\<close> and \<^verbatim>\<open>LabelSelector()\<close> expose the map itself.
\<close>

definition label_Instance :: "Dependencies \<Rightarrow> string \<Rightarrow> StringMap \<Rightarrow> StringMap" where
  "label_Instance deps name l = l(InstanceLabelKey deps \<mapsto> name)"

definition label_Discovery :: "Dependencies \<Rightarrow> StringMap \<Rightarrow> StringMap" where
  "label_Discovery deps l = l(ComponentLabelKey deps \<mapsto> DiscoveryLabelVal deps)"

section \<open>getDiscoveryMeta\<close>

definition getDiscoveryMeta ::
  "Dependencies \<Rightarrow> clientObject \<Rightarrow> (string \<Rightarrow> string) \<Rightarrow> error + (ObjectMeta \<times> StringMap)" where
  "getDiscoveryMeta deps obj nameFunc =
    (case
       (case obj of
          TidbClusterObj cluster \<Rightarrow>
            (let name = tc_Name cluster;
                 instanceName = tc_InstanceName cluster;
                 ownerRef = GetOwnerRef deps cluster;
                 discoveryLabel = label_Discovery deps (label_Instance deps instanceName (label_New deps))
             in Inr (name, ownerRef, discoveryLabel))
        | DMClusterObj cluster \<Rightarrow>
            (let name = dm_Name cluster @ ''-dm'';
                 instanceName = dm_InstanceName cluster @ ''-dm'';
                 ownerRef = GetDMOwnerRef deps cluster;
                 discoveryLabel = label_Discovery deps (label_Instance deps instanceName (label_NewDM deps))
             in Inr (name, ownerRef, discoveryLabel))
        | _ \<Rightarrow> Inl (Panic (''unsupported type '' @ typeName obj @ '' for discovery meta'')))
     of
       Inl e \<Rightarrow> Inl e
     | Inr (name, ownerRef, discoveryLabel) \<Rightarrow>
         Inr (\<lparr> om_Name = nameFunc name,
                om_Namespace = GetNamespace obj,
                om_Labels = discoveryLabel,
                om_Annotations = Map.empty,
                om_OwnerReferences = [ownerRef] \<rparr>,
              discoveryLabel))"

section \<open>Helpers of other packages\<close>

text \<open>
  Modelled from the spec: \<^verbatim>\<open>util.AppendEnv\<close> is absent. The spec's \<^verbatim>\<open>EnvMerge(base,
  overrides)\<close>: the overrides are appended to the base, and an override whose name the
  base already has takes the place of that entry (override wins by variable name, last
  write for a given key wins).
\<close>

definition overrideStep :: "EnvVar list \<Rightarrow> EnvVar \<Rightarrow> EnvVar list" where
  "overrideStep a e =
     (if env_Name e \<in> set (map env_Name a)
      then map (\<lambda>x. if env_Name x = env_Name e then e else x) a
      else a @ [e])"

fun AppendEnv :: "EnvVar list \<Rightarrow> EnvVar list \<Rightarrow> EnvVar list" where
  "AppendEnv a [] = a"
| "AppendEnv a (e # b) = AppendEnv (overrideStep a e) b"

text \<open>
  Modelled from the spec: \<^verbatim>\<open>util.CombineStringMap\<close> is absent. The two maps are combined
  and the second map's value wins on a key of both.
\<close>

definition CombineStringMap :: "StringMap \<Rightarrow> StringMap \<Rightarrow> StringMap" where
  "CombineStringMap a b = a ++ b"

text \<open>
  Modelled from the spec: \<^verbatim>\<open>MergePatchContainers\<close> is absent. The spec's
  \<^verbatim>\<open>MergeContainers(base, overrides)\<close>: a base container that has an override of its name
  is deep-merged with it (a failed merge is an error), the other base containers are
  kept, and the overrides of a new name are added after them. The deep merge of one
  container is \<open>smp\<close>.
\<close>

fun patchBase ::
  "(Container \<Rightarrow> Container \<Rightarrow> string + Container) \<Rightarrow> Container list \<Rightarrow> Container list
     \<Rightarrow> string + Container list" where
  "patchBase smp [] patches = Inr []"
| "patchBase smp (c # cs) patches =
     (case (case find (\<lambda>p. c_Name p = c_Name c) patches of
              None \<Rightarrow> Inr c
            | Some p \<Rightarrow> smp c p) of
        Inl err \<Rightarrow> Inl err
      | Inr c' \<Rightarrow>
          (case patchBase smp cs patches of
             Inl err \<Rightarrow> Inl err
           | Inr out \<Rightarrow> Inr (c' # out)))"

definition MergePatchContainers ::
  "(Container \<Rightarrow> Container \<Rightarrow> string + Container) \<Rightarrow> Container list \<Rightarrow> Container list
     \<Rightarrow> string + Container list" where
  "MergePatchContainers smp base patches =
     (case patchBase smp base patches of
        Inl err \<Rightarrow> Inl err
      | Inr out \<Rightarrow> Inr (out @ filter (\<lambda>p. c_Name p \<notin> set (map c_Name base)) patches))"

text \<open>
  Modelled from the spec: \<^verbatim>\<open>SetServiceWhenPreferIPv6\<close> is absent. It changes the IP-family
  fields of the service (IPv6 first, dual-stack policy) and nothing else.
\<close>

definition SetServiceWhenPreferIPv6 :: "Service \<Rightarrow> Service" where
  "SetServiceWhenPreferIPv6 svc =
     svc\<lparr> svc_Spec := (svc_Spec svc)\<lparr> ss_IPFamilyPolicy := Some ''PreferDualStack'',
                                      ss_IPFamilies := [''IPv6''] \<rparr> \<rparr>"

section \<open>getTidbDiscoveryDeployment\<close>

definition PdTlsCertPath :: string where
  "PdTlsCertPath = ''/var/lib/pd-tls''"

text \<open>The fixed environment of lines 194 to 211.\<close>

definition fixedEnvs :: "string \<Rightarrow> string \<Rightarrow> EnvVar list" where
  "fixedEnvs timezone name =
     [ \<lparr> env_Name = ''MY_POD_NAMESPACE'', env_Value = [],
         env_ValueFrom = Some (FieldRef ''metadata.namespace'') \<rparr>,
       \<lparr> env_Name = ''TZ'', env_Value = timezone, env_ValueFrom = None \<rparr>,
       \<lparr> env_Name = ''TC_NAME'', env_Value = name, env_ValueFrom = None \<rparr> ]"

text \<open>The discovery container of lines 212 to 238.\<close>

definition discoveryContainer ::
  "Dependencies \<Rightarrow> string \<Rightarrow> string \<Rightarrow> string \<Rightarrow> ComponentAccessor \<Rightarrow> Container" where
  "discoveryContainer deps resources timezone name baseSpec =
     (let envs = fixedEnvs timezone name;
          envs = AppendEnv envs (ca_Env baseSpec);
          volMounts = [];
          volMounts = volMounts @ ca_AdditionalVolumeMounts baseSpec
      in \<lparr> c_Name = ''discovery'',
           c_Resources = ContainerResource deps resources,
           c_Command = [''/usr/local/bin/tidb-discovery''],
           c_Image = TiDBDiscoveryImage deps,
           c_ImagePullPolicy = ca_ImagePullPolicy baseSpec,
           c_Env = envs,
           c_EnvFrom = ca_EnvFrom baseSpec,
           c_VolumeMounts = volMounts,
           c_Ports = [ \<lparr> cp_Name = ''discovery'', cp_Protocol = ''TCP'', cp_ContainerPort = 10261 \<rparr>,
                       \<lparr> cp_Name = ''proxy'', cp_Protocol = ''TCP'', cp_ContainerPort = 10262 \<rparr> ] \<rparr>)"

text \<open>The three values the TLS block of lines 251 to 269 appends.\<close>

definition pdTlsVolume :: "Dependencies \<Rightarrow> string \<Rightarrow> Volume" where
  "pdTlsVolume deps name =
     \<lparr> vol_Name = ''pd-tls'',
       vol_VolumeSource = Secret (ClusterTLSSecretName deps name (PDLabelVal deps)) \<rparr>"

definition pdTlsVolumeMount :: VolumeMount where
  "pdTlsVolumeMount = \<lparr> vm_Name = ''pd-tls'', vm_ReadOnly = True, vm_MountPath = PdTlsCertPath \<rparr>"

definition tlsEnabledEnv :: EnvVar where
  "tlsEnabledEnv = \<lparr> env_Name = ''TC_TLS_ENABLED'', env_Value = ''true'', env_ValueFrom = None \<rparr>"

text \<open>
  The type switch of lines 177 to 190: the resource requirements, the timezone and the
  base spec of the cluster (the pod spec is \<^verbatim>\<open>baseSpec.BuildPodSpec()\<close>).
\<close>

fun discoverySettings :: "clientObject \<Rightarrow> error + (string \<times> string \<times> ComponentAccessor)" where
  "discoverySettings (TidbClusterObj cluster) =
     Inr (tc_DiscoveryResources cluster, tc_Timezone cluster, tc_BaseDiscoverySpec cluster)"
| "discoverySettings (DMClusterObj cluster) =
     Inr (dm_DiscoveryResources cluster, dm_Timezone cluster, dm_BaseDiscoverySpec cluster)"
| "discoverySettings obj =
     Inl (Panic (''unsupported type '' @ typeName obj @ '' for discovery meta''))"

text \<open>
  The condition of line 251: the object is a TidbCluster, its cluster TLS is enabled and
  it is not without a local PD.
\<close>

fun tlsWiringApplies :: "clientObject \<Rightarrow> bool" where
  "tlsWiringApplies (TidbClusterObj tc) = (tc_IsTLSClusterEnabled tc \<and> \<not> tc_WithoutLocalPD tc)"
| "tlsWiringApplies _ = False"

text \<open>
  Lines 169 to 269: the pod spec, with the derived meta, the label and the base spec the
  rest of the function goes on using. Indexing \<^verbatim>\<open>podSpec.Containers[0]\<close> panics on an
  empty list.
\<close>

definition discoveryPodSpec ::
  "Dependencies \<Rightarrow> clientObject \<Rightarrow> error + (ObjectMeta \<times> StringMap \<times> ComponentAccessor \<times> PodSpec)" where
  "discoveryPodSpec deps obj =
    (case discoverySettings obj of
       Inl e \<Rightarrow> Inl e
     | Inr (resources, timezone, baseSpec) \<Rightarrow>
        (case getDiscoveryMeta deps obj (DiscoveryMemberName deps) of
           Inl e \<Rightarrow> Inl e
         | Inr (meta, l) \<Rightarrow>
            (let podSpec = ca_BuildPodSpec baseSpec;
                 podSpec = podSpec\<lparr> ps_Containers := ps_Containers podSpec @
                             [discoveryContainer deps resources timezone (GetName obj) baseSpec] \<rparr>
             in case MergePatchContainers (StrategicMergePatch deps) (ps_Containers podSpec)
                       (ca_AdditionalContainers baseSpec) of
                  Inl err \<Rightarrow>
                    Inl (PlainError (''failed to merge containers spec for Discovery of ['' @
                      om_Namespace meta @ ''/'' @ om_Name meta @ ''], error: '' @ err))
                | Inr containers \<Rightarrow>
                   (let podSpec = podSpec\<lparr> ps_Containers := containers \<rparr>;
                        podSpec = podSpec\<lparr> ps_InitContainers :=
                                    ps_InitContainers podSpec @ ca_InitContainers baseSpec \<rparr>;
                        podSpec = podSpec\<lparr> ps_ServiceAccountName := om_Name meta \<rparr>;
                        podSpec = podSpec\<lparr> ps_Volumes :=
                                    ps_Volumes podSpec @ ca_AdditionalVolumes baseSpec \<rparr>
                    in if tlsWiringApplies obj
                       then (case ps_Containers podSpec of
                               [] \<Rightarrow> Inl (Panic ''index out of range [0] with length 0'')
                             | c # cs \<Rightarrow>
                                 Inr (meta, l, baseSpec,
                                   podSpec\<lparr> ps_Volumes := ps_Volumes podSpec @
                                                [pdTlsVolume deps (GetName obj)],
                                            ps_Containers :=
                                              c\<lparr> c_VolumeMounts := c_VolumeMounts c @ [pdTlsVolumeMount],
                                                 c_Env := c_Env c @ [tlsEnabledEnv] \<rparr> # cs \<rparr>))
                       else Inr (meta, l, baseSpec, podSpec)))))"

text \<open>Lines 271 to 298: the Deployment around the pod spec, and its fingerprint annotation.\<close>

definition getTidbDiscoveryDeployment :: "Dependencies \<Rightarrow> clientObject \<Rightarrow> error + Deployment" where
  "getTidbDiscoveryDeployment deps obj =
    (case discoveryPodSpec deps obj of
       Inl e \<Rightarrow> Inl e
     | Inr (meta, l, baseSpec, podSpec) \<Rightarrow>
        (let podLabels = CombineStringMap l (ca_Labels baseSpec);
             podAnnotations = ca_Annotations baseSpec;
             d = \<lparr> d_ObjectMeta = meta,
                   d_Spec = \<lparr> ds_Strategy = ''Recreate'',
                              ds_Replicas = Some 1,
                              ds_Selector = l,
                              ds_Template = \<lparr> pt_Labels = podLabels,
                                              pt_Annotations = podAnnotations,
                                              pt_Spec = podSpec \<rparr> \<rparr> \<rparr>
         in case json_Marshal deps (pt_Spec (ds_Template (d_Spec d))) of
              Inl err \<Rightarrow> Inl (PlainError err)
            | Inr b \<Rightarrow>
                Inr (d\<lparr> d_ObjectMeta := (d_ObjectMeta d)
                         \<lparr> om_Annotations :=
                             (om_Annotations (d_ObjectMeta d))(LastAppliedPodTemplate deps \<mapsto> b) \<rparr> \<rparr>)))"

section \<open>getTidbDiscoveryService\<close>

definition getTidbDiscoveryService ::
  "Dependencies \<Rightarrow> clientObject \<Rightarrow> Deployment \<Rightarrow> bool \<Rightarrow> error + Service" where
  "getTidbDiscoveryService deps obj deploy preferIPv6 =
    (case getDiscoveryMeta deps obj (DiscoveryMemberName deps) of
       Inl e \<Rightarrow> Inl e
     | Inr (meta, _) \<Rightarrow>
        (let svc = \<lparr> svc_ObjectMeta = meta,
                     svc_Spec = \<lparr> ss_Type = ''ClusterIP'',
                                  ss_Ports =
                                    [ \<lparr> sp_Name = ''discovery'', sp_Port = 10261,
                                        sp_TargetPort = 10261, sp_Protocol = ''TCP'' \<rparr>,
                                      \<lparr> sp_Name = ''proxy'', sp_Port = 10262,
                                        sp_TargetPort = 10262, sp_Protocol = ''TCP'' \<rparr> ],
                                  ss_Selector = pt_Labels (ds_Template (d_Spec deploy)),
                                  ss_IPFamilyPolicy = None,
                                  ss_IPFamilies = [] \<rparr> \<rparr>
         in Inr (if preferIPv6 then SetServiceWhenPreferIPv6 svc else svc)))"

section \<open>Reconcile\<close>

text \<open>
  \<^verbatim>\<open>deps.TypedControl\<close>: the five apply operations. Each takes the owner, the desired
  object and the state of the API server, and returns an error text or the applied
  object, with the new state.
\<close>

record 's TypedControl =
  CreateOrUpdateRole :: "clientObject \<Rightarrow> Role \<Rightarrow> 's \<Rightarrow> (string + Role) \<times> 's"
  CreateOrUpdateServiceAccount ::
    "clientObject \<Rightarrow> ServiceAccount \<Rightarrow> 's \<Rightarrow> (string + ServiceAccount) \<times> 's"
  CreateOrUpdateRoleBinding :: "clientObject \<Rightarrow> RoleBinding \<Rightarrow> 's \<Rightarrow> (string + RoleBinding) \<times> 's"
  CreateOrUpdateDeployment :: "clientObject \<Rightarrow> Deployment \<Rightarrow> 's \<Rightarrow> (string + Deployment) \<times> 's"
  CreateOrUpdateService :: "clientObject \<Rightarrow> Service \<Rightarrow> 's \<Rightarrow> (string + Service) \<times> 's"

text \<open>
  What a call of Reconcile does besides returning: a log line, or an apply operation
  with the desired object it was given and what it returned.
\<close>

datatype event =
    LogWarning string
  | ApplyRole Role "string + Role"
  | ApplyServiceAccount ServiceAccount "string + ServiceAccount"
  | ApplyRoleBinding RoleBinding "string + RoleBinding"
  | ApplyDeployment Deployment "string + Deployment"
  | ApplyService Service "string + Service"

text \<open>Lines 87 to 137, with the two variables the type switch has set.\<close>

definition reconcileResources ::
  "Dependencies \<Rightarrow> 's TypedControl \<Rightarrow> clientObject \<Rightarrow> PolicyRule \<Rightarrow> bool \<Rightarrow> 's
     \<Rightarrow> error option \<times> event list \<times> 's" where
  "reconcileResources deps ctl obj clusterPolicyRule preferIPv6 s0 =
    (case getDiscoveryMeta deps obj (DiscoveryMemberName deps) of
       Inl e \<Rightarrow> (Some e, [], s0)
     | Inr (meta, _) \<Rightarrow>
        (let role = \<lparr> role_ObjectMeta = meta,
                      role_Rules = [ clusterPolicyRule,
                                     \<lparr> pr_APIGroups = [[]],
                                       pr_Resources = [''secrets''],
                                       pr_ResourceNames = [],
                                       pr_Verbs = [''get'', ''list'', ''watch''] \<rparr> ] \<rparr>;
             (r1, s1) = CreateOrUpdateRole ctl obj role s0;
             ev1 = [ApplyRole role r1]
         in case r1 of
              Inl err \<Rightarrow>
                (Some (RequeueError (''error creating or updating discovery role: '' @ err)), ev1, s1)
            | Inr _ \<Rightarrow>
         (let sa = \<lparr> sa_ObjectMeta = meta \<rparr>;
              (r2, s2) = CreateOrUpdateServiceAccount ctl obj sa s1;
              ev2 = ev1 @ [ApplyServiceAccount sa r2]
          in case r2 of
               Inl err \<Rightarrow>
                 (Some (RequeueError
                    (''error creating or updating discovery serviceaccount: '' @ err)), ev2, s2)
             | Inr _ \<Rightarrow>
         (let rb = \<lparr> rb_ObjectMeta = meta,
                     rb_Subjects = [\<lparr> subj_Kind = ''ServiceAccount'', subj_Name = om_Name meta \<rparr>],
                     rb_RoleRef = \<lparr> rr_Kind = ''Role'', rr_Name = om_Name meta,
                                    rr_APIGroup = ''rbac.authorization.k8s.io'' \<rparr> \<rparr>;
              (r3, s3) = CreateOrUpdateRoleBinding ctl obj rb s2;
              ev3 = ev2 @ [ApplyRoleBinding rb r3]
          in case r3 of
               Inl err \<Rightarrow>
                 (Some (RequeueError
                    (''error creating or updating discovery rolebinding: '' @ err)), ev3, s3)
             | Inr _ \<Rightarrow>
         (case getTidbDiscoveryDeployment deps obj of
            Inl (Panic p) \<Rightarrow> (Some (Panic p), ev3, s3)
          | Inl e \<Rightarrow>
              (Some (RequeueError
                 (''error generating discovery deployment: '' @ errorText e)), ev3, s3)
          | Inr d \<Rightarrow>
         (let (r4, s4) = CreateOrUpdateDeployment ctl obj d s3;
              ev4 = ev3 @ [ApplyDeployment d r4]
          in case r4 of
               Inl err \<Rightarrow>
                 (Some (RequeueError
                    (''error creating or updating discovery service: '' @ err)), ev4, s4)
             | Inr deploy \<Rightarrow>
         (case getTidbDiscoveryService deps obj deploy preferIPv6 of
            Inl e \<Rightarrow> (Some e, ev4, s4)
          | Inr svc \<Rightarrow>
         (let (r5, s5) = CreateOrUpdateService ctl obj svc s4;
              ev5 = ev4 @ [ApplyService svc r5]
          in case r5 of
               Inl err \<Rightarrow>
                 (Some (RequeueError
                    (''error creating or updating discovery service: '' @ err)), ev5, s5)
             | Inr _ \<Rightarrow> (None, ev5, s5)))))))))"

definition Reconcile ::
  "Dependencies \<Rightarrow> 's TypedControl \<Rightarrow> clientObject \<Rightarrow> 's \<Rightarrow> error option \<times> event list \<times> 's" where
  "Reconcile deps ctl obj s =
    (if \<not> is_metav1_Object obj
     then (Some (PlainError (typeName obj @ '' is not a metav1.Object'')), [], s)
     else case obj of
            TidbClusterObj cluster \<Rightarrow>
              if tc_Spec_PD cluster = None \<and> \<not> tc_AcrossK8s cluster
              then (None, [], s)
              else reconcileResources deps ctl obj
                     \<lparr> pr_APIGroups = [GroupName deps],
                       pr_Resources = [TiDBClusterName deps],
                       pr_ResourceNames = [GetName obj],
                       pr_Verbs = [''get''] \<rparr>
                     (tc_PreferIPv6 cluster) s
          | DMClusterObj cluster \<Rightarrow>
              reconcileResources deps ctl obj
                \<lparr> pr_APIGroups = [GroupName deps],
                  pr_Resources = [DMClusterName deps],
                  pr_ResourceNames = [GetName obj],
                  pr_Verbs = [''get''] \<rparr>
                False s
          | _ \<Rightarrow>
              (None, [LogWarning (''unsupported type '' @ typeName obj @ '' for discovery'')], s))"

text \<open>Observers of an event: which operation it is, and whether the operation failed.\<close>

datatype opKind = KLog | KRole | KServiceAccount | KRoleBinding | KDeployment | KService

fun eventKind :: "event \<Rightarrow> opKind" where
  "eventKind (LogWarning _) = KLog"
| "eventKind (ApplyRole _ _) = KRole"
| "eventKind (ApplyServiceAccount _ _) = KServiceAccount"
| "eventKind (ApplyRoleBinding _ _) = KRoleBinding"
| "eventKind (ApplyDeployment _ _) = KDeployment"
| "eventKind (ApplyService _ _) = KService"

fun failed :: "event \<Rightarrow> bool" where
  "failed (LogWarning _) = False"
| "failed (ApplyRole _ r) = isl r"
| "failed (ApplyServiceAccount _ r) = isl r"
| "failed (ApplyRoleBinding _ r) = isl r"
| "failed (ApplyDeployment _ r) = isl r"
| "failed (ApplyService _ r) = isl r"

text \<open>Looking a variable up by name in an environment: the first entry of that name.\<close>

definition lookupEnv :: "string \<Rightarrow> EnvVar list \<Rightarrow> EnvVar option" where
  "lookupEnv name envs = find (\<lambda>e. env_Name e = name) envs"

text \<open>The desired object of an event, with what the operation returned left out.\<close>

fun request :: "event \<Rightarrow> event" where
  "request (LogWarning m) = LogWarning m"
| "request (ApplyRole x _) = ApplyRole x (Inl [])"
| "request (ApplyServiceAccount x _) = ApplyServiceAccount x (Inl [])"
| "request (ApplyRoleBinding x _) = ApplyRoleBinding x (Inl [])"
| "request (ApplyDeployment x _) = ApplyDeployment x (Inl [])"
| "request (ApplyService x _) = ApplyService x (Inl [])"

text \<open>The name and the instance label of the meta that Reconcile derives for an object.\<close>

definition discoveryNameOf :: "Dependencies \<Rightarrow> clientObject \<Rightarrow> string option" where
  "discoveryNameOf deps obj =
     (case getDiscoveryMeta deps obj (DiscoveryMemberName deps) of
        Inl _ \<Rightarrow> None
      | Inr (meta, _) \<Rightarrow> Some (om_Name meta))"

definition instanceLabelOf :: "Dependencies \<Rightarrow> clientObject \<Rightarrow> string option" where
  "instanceLabelOf deps obj =
     (case getDiscoveryMeta deps obj (DiscoveryMemberName deps) of
        Inl _ \<Rightarrow> None
      | Inr (meta, _) \<Rightarrow> om_Labels meta (InstanceLabelKey deps))"

text \<open>The pod spec of a Deployment's template.\<close>

definition podSpecOf :: "Deployment \<Rightarrow> PodSpec" where
  "podSpecOf d = pt_Spec (ds_Template (d_Spec d))"

section \<open>Example objects\<close>

definition demoDeps :: Dependencies where
  "demoDeps =
     \<lparr> TiDBDiscoveryImage = ''pingcap/tidb-operator'',
       DiscoveryMemberName = (\<lambda>n. n @ ''-discovery''),
       ContainerResource = (\<lambda>r. r),
       ClusterTLSSecretName = (\<lambda>n c. n @ ''-'' @ c @ ''-cluster-secret''),
       PDLabelVal = ''pd'',
       LastAppliedPodTemplate = ''last-applied-podtemplate'',
       GroupName = ''pingcap.com'',
       TiDBClusterName = ''tidbclusters'',
       DMClusterName = ''dmclusters'',
       GetOwnerRef = (\<lambda>c. \<lparr> or_Kind = ''TidbCluster'', or_Name = tc_Name c \<rparr>),
       GetDMOwnerRef = (\<lambda>c. \<lparr> or_Kind = ''DMCluster'', or_Name = dm_Name c \<rparr>),
       label_New = [''name'' \<mapsto> ''tidb-cluster''],
       label_NewDM = [''name'' \<mapsto> ''dm-cluster''],
       InstanceLabelKey = ''instance'',
       ComponentLabelKey = ''component'',
       DiscoveryLabelVal = ''discovery'',
       StrategicMergePatch = (\<lambda>c p. Inr (c\<lparr> c_Resources := c_Resources p \<rparr>)),
       json_Marshal = (\<lambda>ps. Inr (ps_ServiceAccountName ps @ '':'' @
                                  concat (map c_Name (ps_Containers ps)))) \<rparr>"

definition demoBase :: ComponentAccessor where
  "demoBase =
     \<lparr> ca_Env = [ \<lparr> env_Name = ''TZ'', env_Value = ''Asia/Tokyo'', env_ValueFrom = None \<rparr>,
                  \<lparr> env_Name = ''FOO'', env_Value = ''bar'', env_ValueFrom = None \<rparr> ],
       ca_EnvFrom = [],
       ca_ImagePullPolicy = ''IfNotPresent'',
       ca_AdditionalVolumeMounts = [],
       ca_AdditionalContainers = [],
       ca_InitContainers = [],
       ca_AdditionalVolumes = [],
       ca_Labels = [''component'' \<mapsto> ''custom'', ''team'' \<mapsto> ''db''],
       ca_Annotations = [''note'' \<mapsto> ''x''],
       ca_BuildPodSpec = \<lparr> ps_Containers = [], ps_InitContainers = [], ps_Volumes = [],
                            ps_ServiceAccountName = [], ps_Skeleton = [] \<rparr> \<rparr>"

definition fooTidb :: TidbCluster where
  "fooTidb =
     \<lparr> tc_Name = ''foo'', tc_Namespace = ''ns'', tc_InstanceName = ''foo'',
       tc_Spec_PD = Some ''pd'', tc_AcrossK8s = False, tc_PreferIPv6 = False,
       tc_DiscoveryResources = [], tc_Timezone = ''UTC'',
       tc_BaseDiscoverySpec = demoBase,
       tc_IsTLSClusterEnabled = True, tc_WithoutLocalPD = False \<rparr>"

definition fooDM :: DMCluster where
  "fooDM =
     \<lparr> dm_Name = ''foo'', dm_Namespace = ''ns'', dm_InstanceName = ''foo'',
       dm_DiscoveryResources = [], dm_Timezone = ''UTC'',
       dm_BaseDiscoverySpec = demoBase \<rparr>"

text \<open>A TidbCluster named foo whose instance name is not its name.\<close>

definition helmTidb :: TidbCluster where
  "helmTidb = fooTidb\<lparr> tc_InstanceName := ''foo-dm'' \<rparr>"

text \<open>A TidbCluster without a PD member and not across Kubernetes clusters.\<close>

definition idleTidb :: TidbCluster where
  "idleTidb = fooTidb\<lparr> tc_Spec_PD := None \<rparr>"

text \<open>
  An API server that counts the operations, applies every object as desired, and adds a
  label of its own to the pod template of a Deployment.
\<close>

definition demoControl :: "nat TypedControl" where
  "demoControl =
     \<lparr> CreateOrUpdateRole = (\<lambda>owner x s. (Inr x, Suc s)),
       CreateOrUpdateServiceAccount = (\<lambda>owner x s. (Inr x, Suc s)),
       CreateOrUpdateRoleBinding = (\<lambda>owner x s. (Inr x, Suc s)),
       CreateOrUpdateDeployment = (\<lambda>owner x s.
         (Inr (x\<lparr> d_Spec := (d_Spec x)\<lparr> ds_Template := (ds_Template (d_Spec x))
                  \<lparr> pt_Labels := (pt_Labels (ds_Template (d_Spec x)))(''injected'' \<mapsto> ''yes'') \<rparr> \<rparr> \<rparr>),
          Suc s)),
       CreateOrUpdateService = (\<lambda>owner x s. (Inr x, Suc s)) \<rparr>"

text \<open>An API server on which applying the ServiceAccount fails.\<close>

definition failingControl :: "nat TypedControl" where
  "failingControl = demoControl\<lparr> CreateOrUpdateServiceAccount := (\<lambda>owner x s. (Inl ''conflict'', Suc s)) \<rparr>"

text \<open>
  The objects for which Reconcile's type switch goes on to the resources: a DMCluster, or
  a TidbCluster that has a PD member or is across Kubernetes clusters.
\<close>

fun needsDiscovery :: "clientObject \<Rightarrow> bool" where
  "needsDiscovery (TidbClusterObj tc) = (\<not> (tc_Spec_PD tc = None \<and> \<not> tc_AcrossK8s tc))"
| "needsDiscovery (DMClusterObj _) = True"
| "needsDiscovery _ = False"

text \<open>The error text an apply operation returned, empty when it succeeded.\<close>

fun failureText :: "event \<Rightarrow> string" where
  "failureText (LogWarning _) = []"
| "failureText (ApplyRole _ r) = (case r of Inl err \<Rightarrow> err | Inr _ \<Rightarrow> [])"
| "failureText (ApplyServiceAccount _ r) = (case r of Inl err \<Rightarrow> err | Inr _ \<Rightarrow> [])"
| "failureText (ApplyRoleBinding _ r) = (case r of Inl err \<Rightarrow> err | Inr _ \<Rightarrow> [])"
| "failureText (ApplyDeployment _ r) = (case r of Inl err \<Rightarrow> err | Inr _ \<Rightarrow> [])"
| "failureText (ApplyService _ r) = (case r of Inl err \<Rightarrow> err | Inr _ \<Rightarrow> [])"






text \<open>
  The two variables that Reconcile's type switch sets for a cluster object: the policy
  rule on the cluster resource, and the IPv6 preference (false for a DMCluster).
\<close>

definition clusterPolicyRuleOf :: "Dependencies \<Rightarrow> clientObject \<Rightarrow> PolicyRule" where
  "clusterPolicyRuleOf deps obj =
     \<lparr> pr_APIGroups = [GroupName deps],
       pr_Resources = [case obj of DMClusterObj _ \<Rightarrow> DMClusterName deps
                                 | _ \<Rightarrow> TiDBClusterName deps],
       pr_ResourceNames = [GetName obj],
       pr_Verbs = [''get''] \<rparr>"

fun preferIPv6Of :: "clientObject \<Rightarrow> bool" where
  "preferIPv6Of (TidbClusterObj tc) = tc_PreferIPv6 tc"
| "preferIPv6Of _ = False"

text \<open>
  Doing the operation of an event on the API server: the desired object of the event is
  handed to the apply operation of its kind, in the given state; the result is the event
  with what the operation returned, and the state it left. \<open>applyEvents\<close> does a list of
  them, each in the state the one before left.
\<close>

fun applyEvent :: "'s TypedControl \<Rightarrow> clientObject \<Rightarrow> event \<Rightarrow> 's \<Rightarrow> event \<times> 's" where
  "applyEvent ctl obj (LogWarning m) s = (LogWarning m, s)"
| "applyEvent ctl obj (ApplyRole x _) s =
     (case CreateOrUpdateRole ctl obj x s of (r, s') \<Rightarrow> (ApplyRole x r, s'))"
| "applyEvent ctl obj (ApplyServiceAccount x _) s =
     (case CreateOrUpdateServiceAccount ctl obj x s of (r, s') \<Rightarrow> (ApplyServiceAccount x r, s'))"
| "applyEvent ctl obj (ApplyRoleBinding x _) s =
     (case CreateOrUpdateRoleBinding ctl obj x s of (r, s') \<Rightarrow> (ApplyRoleBinding x r, s'))"
| "applyEvent ctl obj (ApplyDeployment x _) s =
     (case CreateOrUpdateDeployment ctl obj x s of (r, s') \<Rightarrow> (ApplyDeployment x r, s'))"
| "applyEvent ctl obj (ApplyService x _) s =
     (case CreateOrUpdateService ctl obj x s of (r, s') \<Rightarrow> (ApplyService x r, s'))"

fun applyEvents :: "'s TypedControl \<Rightarrow> clientObject \<Rightarrow> event list \<Rightarrow> 's \<Rightarrow> event list \<times> 's" where
  "applyEvents ctl obj [] s = ([], s)"
| "applyEvents ctl obj (e # es) s =
     (case applyEvent ctl obj e s of
        (e', s1) \<Rightarrow> (case applyEvents ctl obj es s1 of (es', s2) \<Rightarrow> (e' # es', s2)))"




section \<open>Facts about the example objects\<close>

lemma demoDeps_sel:
  "TiDBDiscoveryImage demoDeps = ''pingcap/tidb-operator''"
  "DiscoveryMemberName demoDeps = (\<lambda>n. n @ ''-discovery'')"
  "ContainerResource demoDeps = (\<lambda>r. r)"
  "ClusterTLSSecretName demoDeps = (\<lambda>n c. n @ ''-'' @ c @ ''-cluster-secret'')"
  "PDLabelVal demoDeps = ''pd''"
  "LastAppliedPodTemplate demoDeps = ''last-applied-podtemplate''"
  "GroupName demoDeps = ''pingcap.com''"
  "TiDBClusterName demoDeps = ''tidbclusters''"
  "DMClusterName demoDeps = ''dmclusters''"
  "GetOwnerRef demoDeps = (\<lambda>c. \<lparr> or_Kind = ''TidbCluster'', or_Name = tc_Name c \<rparr>)"
  "GetDMOwnerRef demoDeps = (\<lambda>c. \<lparr> or_Kind = ''DMCluster'', or_Name = dm_Name c \<rparr>)"
  "label_New demoDeps = [''name'' \<mapsto> ''tidb-cluster'']"
  "label_NewDM demoDeps = [''name'' \<mapsto> ''dm-cluster'']"
  "InstanceLabelKey demoDeps = ''instance''"
  "ComponentLabelKey demoDeps = ''component''"
  "DiscoveryLabelVal demoDeps = ''discovery''"
  "StrategicMergePatch demoDeps = (\<lambda>c p. Inr (c\<lparr> c_Resources := c_Resources p \<rparr>))"
  "json_Marshal demoDeps = (\<lambda>ps. Inr (ps_ServiceAccountName ps @ '':'' @
                                  concat (map c_Name (ps_Containers ps))))"
  by (simp_all add: demoDeps_def)

lemma demoBase_sel:
  "ca_Env demoBase = [ \<lparr> env_Name = ''TZ'', env_Value = ''Asia/Tokyo'', env_ValueFrom = None \<rparr>,
                       \<lparr> env_Name = ''FOO'', env_Value = ''bar'', env_ValueFrom = None \<rparr> ]"
  "ca_EnvFrom demoBase = []"
  "ca_ImagePullPolicy demoBase = ''IfNotPresent''"
  "ca_AdditionalVolumeMounts demoBase = []"
  "ca_AdditionalContainers demoBase = []"
  "ca_InitContainers demoBase = []"
  "ca_AdditionalVolumes demoBase = []"
  "ca_Labels demoBase = [''component'' \<mapsto> ''custom'', ''team'' \<mapsto> ''db'']"
  "ca_Annotations demoBase = [''note'' \<mapsto> ''x'']"
  "ca_BuildPodSpec demoBase = \<lparr> ps_Containers = [], ps_InitContainers = [], ps_Volumes = [],
                                  ps_ServiceAccountName = [], ps_Skeleton = [] \<rparr>"
  by (simp_all add: demoBase_def)

lemma fooTidb_sel:
  "tc_Name fooTidb = ''foo''" "tc_Namespace fooTidb = ''ns''" "tc_InstanceName fooTidb = ''foo''"
  "tc_Spec_PD fooTidb = Some ''pd''" "tc_AcrossK8s fooTidb = False" "tc_PreferIPv6 fooTidb = False"
  "tc_DiscoveryResources fooTidb = []" "tc_Timezone fooTidb = ''UTC''"
  "tc_BaseDiscoverySpec fooTidb = demoBase"
  "tc_IsTLSClusterEnabled fooTidb = True" "tc_WithoutLocalPD fooTidb = False"
  by (simp_all add: fooTidb_def)

lemma fooDM_sel:
  "dm_Name fooDM = ''foo''" "dm_Namespace fooDM = ''ns''" "dm_InstanceName fooDM = ''foo''"
  "dm_DiscoveryResources fooDM = []" "dm_Timezone fooDM = ''UTC''"
  "dm_BaseDiscoverySpec fooDM = demoBase"
  by (simp_all add: fooDM_def)

lemma helmTidb_sel:
  "tc_Name helmTidb = ''foo''" "tc_Namespace helmTidb = ''ns''"
  "tc_InstanceName helmTidb = ''foo-dm''"
  by (simp_all add: helmTidb_def fooTidb_def)

lemma idleTidb_sel:
  "tc_Spec_PD idleTidb = None" "tc_AcrossK8s idleTidb = False"
  by (simp_all add: idleTidb_def fooTidb_def)

section \<open>The derived meta\<close>

lemma getDiscoveryMeta_Tidb:
  "getDiscoveryMeta deps (TidbClusterObj tc) nameFunc =
     Inr (\<lparr> om_Name = nameFunc (tc_Name tc), om_Namespace = tc_Namespace tc,
            om_Labels = label_Discovery deps (label_Instance deps (tc_InstanceName tc) (label_New deps)),
            om_Annotations = Map.empty, om_OwnerReferences = [GetOwnerRef deps tc] \<rparr>,
          label_Discovery deps (label_Instance deps (tc_InstanceName tc) (label_New deps)))"
  by (simp add: getDiscoveryMeta_def)

lemma getDiscoveryMeta_DM:
  "getDiscoveryMeta deps (DMClusterObj dm) nameFunc =
     Inr (\<lparr> om_Name = nameFunc (dm_Name dm @ ''-dm''), om_Namespace = dm_Namespace dm,
            om_Labels = label_Discovery deps (label_Instance deps (dm_InstanceName dm @ ''-dm'') (label_NewDM deps)),
            om_Annotations = Map.empty, om_OwnerReferences = [GetDMOwnerRef deps dm] \<rparr>,
          label_Discovery deps (label_Instance deps (dm_InstanceName dm @ ''-dm'') (label_NewDM deps)))"
  by (simp add: getDiscoveryMeta_def)

lemma getDiscoveryMeta_error_is_panic:
  "getDiscoveryMeta deps obj nameFunc = Inl e \<Longrightarrow> \<exists>p. e = Panic p"
  by (cases obj) (auto simp: getDiscoveryMeta_def)

lemma getTidbDiscoveryService_error_is_panic:
  "getTidbDiscoveryService deps obj deploy v6 = Inl e \<Longrightarrow> \<exists>p. e = Panic p"
  by (auto simp: getTidbDiscoveryService_def Let_def split: sum.splits
      dest: getDiscoveryMeta_error_is_panic)

lemma reconcileResources_not_plain:
  "fst (reconcileResources deps ctl obj rule v6 s) \<noteq> Some (PlainError m)"
  unfolding reconcileResources_def
  by (auto simp: Let_def split: sum.splits prod.splits error.splits
      dest: getDiscoveryMeta_error_is_panic getTidbDiscoveryService_error_is_panic)

text \<open>
  C6, as the code has it. The name of the derived meta is \<open>nameFunc\<close> of the cluster name
  for a TidbCluster and of the cluster name followed by \<open>-dm\<close> for a DMCluster, so the two
  names of same-named clusters differ when \<open>nameFunc\<close> is injective. The instance label
  is the instance name (\<^verbatim>\<open>GetInstanceName()\<close>, not the cluster name) for a TidbCluster and
  the instance name followed by \<open>-dm\<close> for a DMCluster, so the two instance labels differ
  when the two instance names are equal.
\<close>

theorem naming_isolation:
  assumes T: "getDiscoveryMeta deps (TidbClusterObj tc) nameFunc = Inr (metaT, lT)"
      and D: "getDiscoveryMeta deps (DMClusterObj dm) nameFunc = Inr (metaD, lD)"
      and K: "InstanceLabelKey deps \<noteq> ComponentLabelKey deps"
  shows "om_Name metaT = nameFunc (tc_Name tc) \<and>
         om_Name metaD = nameFunc (dm_Name dm @ ''-dm'') \<and>
         om_Labels metaT (InstanceLabelKey deps) = Some (tc_InstanceName tc) \<and>
         om_Labels metaD (InstanceLabelKey deps) = Some (dm_InstanceName dm @ ''-dm'') \<and>
         lT = om_Labels metaT \<and> lD = om_Labels metaD \<and>
         (tc_Name tc = dm_Name dm \<and> inj nameFunc \<longrightarrow> om_Name metaT \<noteq> om_Name metaD) \<and>
         (tc_InstanceName tc = dm_InstanceName dm \<longrightarrow>
            om_Labels metaT (InstanceLabelKey deps) \<noteq> om_Labels metaD (InstanceLabelKey deps))"
proof -
  have mT: "metaT = \<lparr> om_Name = nameFunc (tc_Name tc), om_Namespace = tc_Namespace tc,
            om_Labels = lT, om_Annotations = Map.empty,
            om_OwnerReferences = [GetOwnerRef deps tc] \<rparr>"
    and lT: "lT = label_Discovery deps (label_Instance deps (tc_InstanceName tc) (label_New deps))"
    using T by (auto simp: getDiscoveryMeta_Tidb)
  have mD: "metaD = \<lparr> om_Name = nameFunc (dm_Name dm @ ''-dm''), om_Namespace = dm_Namespace dm,
            om_Labels = lD, om_Annotations = Map.empty,
            om_OwnerReferences = [GetDMOwnerRef deps dm] \<rparr>"
    and lD: "lD = label_Discovery deps
                    (label_Instance deps (dm_InstanceName dm @ ''-dm'') (label_NewDM deps))"
    using D by (auto simp: getDiscoveryMeta_DM)
  have iT: "lT (InstanceLabelKey deps) = Some (tc_InstanceName tc)"
    using K by (simp add: lT label_Discovery_def label_Instance_def)
  have iD: "lD (InstanceLabelKey deps) = Some (dm_InstanceName dm @ ''-dm'')"
    using K by (simp add: lD label_Discovery_def label_Instance_def)
  have names: "tc_Name tc = dm_Name dm \<and> inj nameFunc \<longrightarrow>
                 nameFunc (tc_Name tc) \<noteq> nameFunc (dm_Name dm @ ''-dm'')"
    by (auto dest: injD)
  show ?thesis
    using names by (simp add: mT mD iT iD)
qed

text \<open>
  The TidbCluster foo and the DMCluster foo of one namespace, both with the instance name
  foo: the names are foo-discovery and foo-dm-discovery, the instance labels foo and
  foo-dm.
\<close>

theorem naming_isolation_witness:
  "tc_Name fooTidb = dm_Name fooDM \<and> tc_InstanceName fooTidb = dm_InstanceName fooDM \<and>
   inj (DiscoveryMemberName demoDeps) \<and>
   discoveryNameOf demoDeps (TidbClusterObj fooTidb) = Some ''foo-discovery'' \<and>
   discoveryNameOf demoDeps (DMClusterObj fooDM) = Some ''foo-dm-discovery'' \<and>
   instanceLabelOf demoDeps (TidbClusterObj fooTidb) = Some ''foo'' \<and>
   instanceLabelOf demoDeps (DMClusterObj fooDM) = Some ''foo-dm''"
proof -
  obtain metaT lT where
    T: "getDiscoveryMeta demoDeps (TidbClusterObj fooTidb) (DiscoveryMemberName demoDeps) =
          Inr (metaT, lT)"
    by (simp add: getDiscoveryMeta_Tidb)
  obtain metaD lD where
    D: "getDiscoveryMeta demoDeps (DMClusterObj fooDM) (DiscoveryMemberName demoDeps) =
          Inr (metaD, lD)"
    by (simp add: getDiscoveryMeta_DM)
  have K: "InstanceLabelKey demoDeps \<noteq> ComponentLabelKey demoDeps"
    by (simp add: demoDeps_sel)
  have I: "inj (DiscoveryMemberName demoDeps)"
    by (simp add: demoDeps_sel inj_on_def)
  from naming_isolation [OF T D K] I show ?thesis
    by (simp add: discoveryNameOf_def instanceLabelOf_def T D)
      (simp add: demoDeps_sel fooTidb_sel fooDM_sel)
qed

text \<open>
  C6 as stated fails: the TidbCluster foo whose instance name is foo-dm and the DMCluster
  foo of the same namespace get the same instance label, and the TidbCluster's instance
  label is not its cluster name.
\<close>

theorem naming_isolation_counterexample:
  "tc_Name helmTidb = dm_Name fooDM \<and> tc_Namespace helmTidb = dm_Namespace fooDM \<and>
   instanceLabelOf demoDeps (TidbClusterObj helmTidb) =
     instanceLabelOf demoDeps (DMClusterObj fooDM) \<and>
   instanceLabelOf demoDeps (TidbClusterObj helmTidb) \<noteq> Some (tc_Name helmTidb)"
  by (simp add: instanceLabelOf_def getDiscoveryMeta_Tidb getDiscoveryMeta_DM helmTidb_sel
      fooDM_sel demoDeps_sel label_Discovery_def label_Instance_def)

section \<open>Gating\<close>

text \<open>
  C5. A TidbCluster whose spec has no PD member and that is not across Kubernetes
  clusters: Reconcile returns nil, applies nothing and leaves the API server as it was.
\<close>

theorem Reconcile_without_PD_is_noop:
  "tc_Spec_PD tc = None \<Longrightarrow> \<not> tc_AcrossK8s tc \<Longrightarrow>
   Reconcile deps ctl (TidbClusterObj tc) s = (None, [], s)"
  by (simp add: Reconcile_def)

theorem Reconcile_without_PD_is_noop_witness:
  "tc_Spec_PD idleTidb = None \<and> \<not> tc_AcrossK8s idleTidb \<and>
   Reconcile demoDeps demoControl (TidbClusterObj idleTidb) 0 = (None, [], 0)"
  using Reconcile_without_PD_is_noop [of idleTidb demoDeps demoControl 0]
  by (simp add: idleTidb_sel)

text \<open>
  C9. An object that is neither a TidbCluster nor a DMCluster: Reconcile logs the
  warning, returns nil, applies nothing and leaves the API server as it was.
\<close>

theorem Reconcile_unsupported_type:
  "Reconcile deps ctl (OtherObject t n ns) s =
     (None, [LogWarning (''unsupported type '' @ t @ '' for discovery'')], s)"
  by (simp add: Reconcile_def)

text \<open>
  C10. On a non-nil object Reconcile never returns a plain error, so the error of the
  failed type assertion is returned for the nil interface value only.
\<close>

theorem not_a_metav1_Object_only_for_nil:
  "(obj \<noteq> NilObject \<longrightarrow> (\<forall>m. fst (Reconcile deps ctl obj s) \<noteq> Some (PlainError m))) \<and>
   Reconcile deps ctl NilObject s =
     (Some (PlainError ''<nil> is not a metav1.Object''), [], s)"
  by (cases obj) (simp_all add: Reconcile_def reconcileResources_not_plain)

theorem not_a_metav1_Object_only_for_nil_witness:
  "TidbClusterObj fooTidb \<noteq> NilObject \<and>
   (\<forall>m. fst (Reconcile demoDeps demoControl (TidbClusterObj fooTidb) 0) \<noteq> Some (PlainError m)) \<and>
   Reconcile demoDeps demoControl NilObject 0 =
     (Some (PlainError ''<nil> is not a metav1.Object''), [], 0)"
  using not_a_metav1_Object_only_for_nil [of "TidbClusterObj fooTidb" demoDeps demoControl 0]
  by simp

section \<open>The pod spec\<close>


lemma patchBase_length:
  "patchBase smp base patches = Inr out \<Longrightarrow> length out = length base"
  by (induction base arbitrary: out) (auto split: sum.splits option.splits)

lemma MergePatchContainers_nonempty:
  "MergePatchContainers smp (xs @ [c]) patches = Inr out \<Longrightarrow> \<exists>c' cs. out = c' # cs"
  by (cases out) (auto simp: MergePatchContainers_def split: sum.splits dest: patchBase_length)

lemma MergePatchContainers_single:
  "MergePatchContainers smp [c] patches = Inr out \<Longrightarrow>
   \<exists>c'. out = c' # filter (\<lambda>p. c_Name p \<noteq> c_Name c) patches \<and>
     (case find (\<lambda>p. c_Name p = c_Name c) patches of
        None \<Rightarrow> c' = c
      | Some p \<Rightarrow> smp c p = Inr c')"
  by (auto simp: MergePatchContainers_def split: sum.splits option.splits)

lemma discoveryContainer_name:
  "c_Name (discoveryContainer deps r tz n base) = ''discovery''"
  by (simp add: discoveryContainer_def Let_def)

lemma build_podSpec:
  "getTidbDiscoveryDeployment deps obj = Inr d \<Longrightarrow>
   \<exists>meta l base. discoveryPodSpec deps obj = Inr (meta, l, base, podSpecOf d)"
  by (auto simp: getTidbDiscoveryDeployment_def podSpecOf_def Let_def split: sum.splits prod.splits)

lemma discoveryPodSpec_shape:
  assumes "discoveryPodSpec deps obj = Inr (meta, l, base, ps)"
  shows "\<exists>res tz c cs.
     discoverySettings obj = Inr (res, tz, base) \<and>
     getDiscoveryMeta deps obj (DiscoveryMemberName deps) = Inr (meta, l) \<and>
     MergePatchContainers (StrategicMergePatch deps)
        (ps_Containers (ca_BuildPodSpec base) @
           [discoveryContainer deps res tz (GetName obj) base])
        (ca_AdditionalContainers base) = Inr (c # cs) \<and>
     ps_Containers ps =
       (if tlsWiringApplies obj
        then c\<lparr> c_VolumeMounts := c_VolumeMounts c @ [pdTlsVolumeMount],
                c_Env := c_Env c @ [tlsEnabledEnv] \<rparr> # cs
        else c # cs) \<and>
     ps_Volumes ps = ps_Volumes (ca_BuildPodSpec base) @ ca_AdditionalVolumes base @
        (if tlsWiringApplies obj then [pdTlsVolume deps (GetName obj)] else []) \<and>
     ps_InitContainers ps = ps_InitContainers (ca_BuildPodSpec base) @ ca_InitContainers base \<and>
     ps_ServiceAccountName ps = om_Name meta \<and>
     ps_Skeleton ps = ps_Skeleton (ca_BuildPodSpec base)"
proof -
  from assms obtain res tz base' where
    s: "discoverySettings obj = Inr (res, tz, base')"
    by (auto simp: discoveryPodSpec_def split: sum.splits)
  from assms s obtain meta' l' where
    m: "getDiscoveryMeta deps obj (DiscoveryMemberName deps) = Inr (meta', l')"
    by (auto simp: discoveryPodSpec_def split: sum.splits)
  from assms s m obtain merged where
    mg: "MergePatchContainers (StrategicMergePatch deps)
           (ps_Containers (ca_BuildPodSpec base') @
              [discoveryContainer deps res tz (GetName obj) base'])
           (ca_AdditionalContainers base') = Inr merged"
    by (auto simp: discoveryPodSpec_def Let_def split: sum.splits)
  from MergePatchContainers_nonempty [OF mg] obtain c cs where
    ne: "merged = c # cs" by blast
  from assms have eq: "meta' = meta" "l' = l" "base' = base"
    by (auto simp: discoveryPodSpec_def Let_def s m mg ne split: if_splits)
  from assms have ps: "ps =
      (if tlsWiringApplies obj
       then ca_BuildPodSpec base
         \<lparr> ps_Containers := c # cs,
           ps_InitContainers := ps_InitContainers (ca_BuildPodSpec base) @ ca_InitContainers base,
           ps_ServiceAccountName := om_Name meta,
           ps_Volumes := ps_Volumes (ca_BuildPodSpec base) @ ca_AdditionalVolumes base,
           ps_Volumes := (ps_Volumes (ca_BuildPodSpec base) @ ca_AdditionalVolumes base) @
                           [pdTlsVolume deps (GetName obj)],
           ps_Containers := c\<lparr> c_VolumeMounts := c_VolumeMounts c @ [pdTlsVolumeMount],
                               c_Env := c_Env c @ [tlsEnabledEnv] \<rparr> # cs \<rparr>
       else ca_BuildPodSpec base
         \<lparr> ps_Containers := c # cs,
           ps_InitContainers := ps_InitContainers (ca_BuildPodSpec base) @ ca_InitContainers base,
           ps_ServiceAccountName := om_Name meta,
           ps_Volumes := ps_Volumes (ca_BuildPodSpec base) @ ca_AdditionalVolumes base \<rparr>)"
    by (auto simp: discoveryPodSpec_def Let_def s m mg ne split: if_splits)
  show ?thesis
    apply (rule exI [of _ res], rule exI [of _ tz], rule exI [of _ c], rule exI [of _ cs])
    using s m mg
    by (simp add: eq ne ps)
qed


lemma demo_merge:
  "MergePatchContainers smp [c] [] = Inr [c]"
  by (simp add: MergePatchContainers_def)

lemma demo_podSpec_Tidb:
  "\<exists>meta l. discoveryPodSpec demoDeps (TidbClusterObj fooTidb) =
     Inr (meta, l, demoBase,
       \<lparr> ps_Containers =
           [(discoveryContainer demoDeps [] ''UTC'' ''foo'' demoBase)
              \<lparr> c_VolumeMounts := [pdTlsVolumeMount],
                c_Env := c_Env (discoveryContainer demoDeps [] ''UTC'' ''foo'' demoBase) @ [tlsEnabledEnv] \<rparr>],
         ps_InitContainers = [],
         ps_Volumes = [pdTlsVolume demoDeps ''foo''],
         ps_ServiceAccountName = ''foo-discovery'',
         ps_Skeleton = [] \<rparr>)"
  by (simp add: discoveryPodSpec_def getDiscoveryMeta_Tidb fooTidb_sel demoBase_sel demo_merge Let_def demoDeps_sel(2,17))
    (simp add: discoveryContainer_def Let_def demoBase_sel)

lemma demo_build_Tidb:
  "\<exists>d. getTidbDiscoveryDeployment demoDeps (TidbClusterObj fooTidb) = Inr d"
  using demo_podSpec_Tidb
  by (auto simp: getTidbDiscoveryDeployment_def Let_def demoDeps_sel(18))
















section \<open>The environment of the discovery container\<close>

lemma overrideStep_names:
  "set (map env_Name (overrideStep a e)) = insert (env_Name e) (set (map env_Name a))"
  by (auto simp: overrideStep_def)

lemma filter_replace_other:
  "env_Name e \<noteq> n \<Longrightarrow>
   filter (\<lambda>x. env_Name x = n) (map (\<lambda>x. if env_Name x = env_Name e then e else x) a) =
   filter (\<lambda>x. env_Name x = n) a"
  by (induction a) auto

lemma overrideStep_other:
  "env_Name e \<noteq> n \<Longrightarrow> filter (\<lambda>x. env_Name x = n) (overrideStep a e) = filter (\<lambda>x. env_Name x = n) a"
  by (simp add: overrideStep_def filter_replace_other)

lemma find_app: "find P (xs @ ys) = (case find P xs of None \<Rightarrow> find P ys | Some x \<Rightarrow> Some x)"
  by (induction xs) auto

lemma overrideStep_same:
  "x \<in> set (overrideStep a e) \<Longrightarrow> env_Name x = env_Name e \<Longrightarrow> x = e"
  by (auto simp: overrideStep_def image_iff split: if_splits)

lemma AppendEnv_names:
  "set (map env_Name (AppendEnv a b)) = set (map env_Name a) \<union> set (map env_Name b)"
proof (induction b arbitrary: a)
  case Nil
  show ?case by simp
next
  case (Cons e b)
  show ?case
    unfolding AppendEnv.simps Cons.IH overrideStep_names by auto
qed

lemma AppendEnv_keeps:
  "n \<notin> set (map env_Name b) \<Longrightarrow>
   filter (\<lambda>x. env_Name x = n) (AppendEnv a b) = filter (\<lambda>x. env_Name x = n) a"
proof (induction b arbitrary: a)
  case Nil
  show ?case by simp
next
  case (Cons e b)
  then have "env_Name e \<noteq> n" and "n \<notin> set (map env_Name b)" by auto
  then show ?case
    unfolding AppendEnv.simps by (simp add: Cons.IH overrideStep_other)
qed

lemma find_filter_hd: "find P xs = (case filter P xs of [] \<Rightarrow> None | x # _ \<Rightarrow> Some x)"
  by (induction xs) auto

lemma lookupEnv_keeps:
  "n \<notin> set (map env_Name b) \<Longrightarrow> lookupEnv n (AppendEnv a b) = lookupEnv n a"
  by (simp add: lookupEnv_def find_filter_hd AppendEnv_keeps)

lemma AppendEnv_overrides:
  "n \<in> set (map env_Name b) \<Longrightarrow> x \<in> set (AppendEnv a b) \<Longrightarrow> env_Name x = n \<Longrightarrow>
   find (\<lambda>e. env_Name e = n) (rev b) = Some x"
proof (induction b arbitrary: a)
  case Nil
  then show ?case by simp
next
  case (Cons e b)
  show ?case
  proof (cases "n \<in> set (map env_Name b)")
    case True
    from Cons.prems(2) have "x \<in> set (AppendEnv (overrideStep a e) b)"
      by (simp only: AppendEnv.simps)
    from Cons.IH [OF True this Cons.prems(3)] show ?thesis
      by (simp add: find_app)
  next
    case False
    with Cons.prems(1) have ne: "env_Name e = n" by auto
    have none: "find (\<lambda>e. env_Name e = n) (rev b) = None"
      using False by (auto simp: find_None_iff)
    have "x \<in> set (filter (\<lambda>x. env_Name x = n) (AppendEnv (overrideStep a e) b))"
      using Cons.prems(2,3) by (simp only: AppendEnv.simps) simp
    then have "x \<in> set (filter (\<lambda>x. env_Name x = n) (overrideStep a e))"
      using AppendEnv_keeps [OF False, of "overrideStep a e"] by simp
    then have "x = e"
      using ne by (auto dest: overrideStep_same)
    then show ?thesis
      using ne none by (simp add: find_app)
  qed
qed

lemma lookupEnv_overrides:
  assumes "n \<in> set (map env_Name b)"
  shows "lookupEnv n (AppendEnv a b) = find (\<lambda>e. env_Name e = n) (rev b)"
proof -
  from assms have "n \<in> set (map env_Name (AppendEnv a b))"
    by (simp only: AppendEnv_names) simp
  then obtain x where x: "lookupEnv n (AppendEnv a b) = Some x"
    unfolding lookupEnv_def by (cases "find (\<lambda>e. env_Name e = n) (AppendEnv a b)") (auto simp: find_None_iff)
  then have "x \<in> set (AppendEnv a b)" "env_Name x = n"
    unfolding lookupEnv_def by (auto simp: find_Some_iff)
  from AppendEnv_overrides [OF assms this] x show ?thesis by simp
qed

lemma AppendEnv_fresh:
  "set (map env_Name a) \<inter> set (map env_Name b) = {} \<Longrightarrow> distinct (map env_Name b) \<Longrightarrow>
   AppendEnv a b = a @ b"
proof (induction b arbitrary: a)
  case Nil
  show ?case by simp
next
  case (Cons e b)
  from Cons.prems have fresh: "env_Name e \<notin> set (map env_Name a)" by auto
  then have step: "overrideStep a e = a @ [e]" by (simp add: overrideStep_def)
  have "set (map env_Name (a @ [e])) \<inter> set (map env_Name b) = {}"
    using Cons.prems by auto
  moreover have "distinct (map env_Name b)" using Cons.prems by simp
  ultimately have "AppendEnv (a @ [e]) b = (a @ [e]) @ b" by (rule Cons.IH)
  then show ?case unfolding AppendEnv.simps step by simp
qed

lemma build_shape:
  assumes "getTidbDiscoveryDeployment deps obj = Inr d"
  shows "\<exists>meta l base b.
     discoveryPodSpec deps obj = Inr (meta, l, base, podSpecOf d) \<and>
     json_Marshal deps (podSpecOf d) = Inr b \<and>
     d_ObjectMeta d = meta\<lparr> om_Annotations := (om_Annotations meta)(LastAppliedPodTemplate deps \<mapsto> b) \<rparr> \<and>
     ds_Strategy (d_Spec d) = ''Recreate'' \<and>
     ds_Replicas (d_Spec d) = Some 1 \<and>
     ds_Selector (d_Spec d) = l \<and>
     pt_Labels (ds_Template (d_Spec d)) = CombineStringMap l (ca_Labels base) \<and>
     pt_Annotations (ds_Template (d_Spec d)) = ca_Annotations base"
  using assms
  by (auto simp: getTidbDiscoveryDeployment_def podSpecOf_def Let_def split: sum.splits prod.splits)

text \<open>
  C2. For an object of a known variant, the environment of the discovery container is
  \<open>AppendEnv\<close> of the fixed entries MY_POD_NAMESPACE (the field reference
  metadata.namespace), TZ (the timezone) and TC_NAME (the cluster name) with the
  environment of the base spec. Its names are the fixed names and the base spec's names;
  every entry whose name the base spec supplies is the base spec's last entry of that
  name, so the lookup of such a name gives the base spec's entry; the lookup of any other
  name gives the fixed entry; with no name in common and no name twice, the environment
  is the fixed entries followed by the base spec's. In the built Deployment, when the
  pod spec of the base spec brings no containers and no additional container is named
  discovery, the first container is the discovery container with this environment,
  followed by TC_TLS_ENABLED when the TLS wiring applies.
\<close>

theorem discovery_environment:
  assumes known: "discoverySettings obj = Inr (resources, timezone, baseSpec)"
  shows "c_Env (discoveryContainer deps resources timezone (GetName obj) baseSpec) =
           AppendEnv
             [ \<lparr> env_Name = ''MY_POD_NAMESPACE'', env_Value = [],
                 env_ValueFrom = Some (FieldRef ''metadata.namespace'') \<rparr>,
               \<lparr> env_Name = ''TZ'', env_Value = timezone, env_ValueFrom = None \<rparr>,
               \<lparr> env_Name = ''TC_NAME'', env_Value = GetName obj, env_ValueFrom = None \<rparr> ]
             (ca_Env baseSpec) \<and>
         set (map env_Name (c_Env (discoveryContainer deps resources timezone (GetName obj) baseSpec))) =
           {''MY_POD_NAMESPACE'', ''TZ'', ''TC_NAME''} \<union> set (map env_Name (ca_Env baseSpec)) \<and>
         (\<forall>x \<in> set (c_Env (discoveryContainer deps resources timezone (GetName obj) baseSpec)).
            env_Name x \<in> set (map env_Name (ca_Env baseSpec)) \<longrightarrow>
            find (\<lambda>e. env_Name e = env_Name x) (rev (ca_Env baseSpec)) = Some x) \<and>
         (\<forall>n. n \<in> set (map env_Name (ca_Env baseSpec)) \<longrightarrow>
            lookupEnv n (c_Env (discoveryContainer deps resources timezone (GetName obj) baseSpec)) =
              find (\<lambda>e. env_Name e = n) (rev (ca_Env baseSpec))) \<and>
         (\<forall>n. n \<notin> set (map env_Name (ca_Env baseSpec)) \<longrightarrow>
            lookupEnv n (c_Env (discoveryContainer deps resources timezone (GetName obj) baseSpec)) =
              lookupEnv n (fixedEnvs timezone (GetName obj))) \<and>
         ({''MY_POD_NAMESPACE'', ''TZ'', ''TC_NAME''} \<inter> set (map env_Name (ca_Env baseSpec)) = {} \<and>
          distinct (map env_Name (ca_Env baseSpec)) \<longrightarrow>
            c_Env (discoveryContainer deps resources timezone (GetName obj) baseSpec) =
              fixedEnvs timezone (GetName obj) @ ca_Env baseSpec) \<and>
         (\<forall>d. getTidbDiscoveryDeployment deps obj = Inr d \<and>
              ps_Containers (ca_BuildPodSpec baseSpec) = [] \<and>
              find (\<lambda>p. c_Name p = ''discovery'') (ca_AdditionalContainers baseSpec) = None \<longrightarrow>
              (\<exists>c cs. ps_Containers (podSpecOf d) = c # cs \<and> c_Name c = ''discovery'' \<and>
                 c_Env c = AppendEnv (fixedEnvs timezone (GetName obj)) (ca_Env baseSpec) @
                   (if tlsWiringApplies obj
                    then [\<lparr> env_Name = ''TC_TLS_ENABLED'', env_Value = ''true'', env_ValueFrom = None \<rparr>]
                    else [])))"
proof -
  let ?fixed = "fixedEnvs timezone (GetName obj)"
  let ?disc = "discoveryContainer deps resources timezone (GetName obj) baseSpec"
  have env: "c_Env ?disc = AppendEnv ?fixed (ca_Env baseSpec)"
    by (simp add: discoveryContainer_def Let_def)
  have fixed: "?fixed = [ \<lparr> env_Name = ''MY_POD_NAMESPACE'', env_Value = [],
                 env_ValueFrom = Some (FieldRef ''metadata.namespace'') \<rparr>,
               \<lparr> env_Name = ''TZ'', env_Value = timezone, env_ValueFrom = None \<rparr>,
               \<lparr> env_Name = ''TC_NAME'', env_Value = GetName obj, env_ValueFrom = None \<rparr> ]"
    by (simp add: fixedEnvs_def)
  have names: "set (map env_Name ?fixed) = {''MY_POD_NAMESPACE'', ''TZ'', ''TC_NAME''}"
    by (simp add: fixedEnvs_def)
  have c1: "c_Env ?disc = AppendEnv [ \<lparr> env_Name = ''MY_POD_NAMESPACE'', env_Value = [],
                 env_ValueFrom = Some (FieldRef ''metadata.namespace'') \<rparr>,
               \<lparr> env_Name = ''TZ'', env_Value = timezone, env_ValueFrom = None \<rparr>,
               \<lparr> env_Name = ''TC_NAME'', env_Value = GetName obj, env_ValueFrom = None \<rparr> ]
             (ca_Env baseSpec)"
    using env fixed by simp
  have c2: "set (map env_Name (c_Env ?disc)) =
           {''MY_POD_NAMESPACE'', ''TZ'', ''TC_NAME''} \<union> set (map env_Name (ca_Env baseSpec))"
    unfolding env AppendEnv_names names ..
  have c3: "\<forall>x \<in> set (c_Env ?disc). env_Name x \<in> set (map env_Name (ca_Env baseSpec)) \<longrightarrow>
            find (\<lambda>e. env_Name e = env_Name x) (rev (ca_Env baseSpec)) = Some x"
    unfolding env by (blast intro: AppendEnv_overrides)
  have c4: "\<forall>n. n \<in> set (map env_Name (ca_Env baseSpec)) \<longrightarrow>
            lookupEnv n (c_Env ?disc) = find (\<lambda>e. env_Name e = n) (rev (ca_Env baseSpec))"
    unfolding env by (blast intro: lookupEnv_overrides)
  have c5: "\<forall>n. n \<notin> set (map env_Name (ca_Env baseSpec)) \<longrightarrow>
            lookupEnv n (c_Env ?disc) = lookupEnv n ?fixed"
    unfolding env by (blast intro: lookupEnv_keeps)
  have c6: "{''MY_POD_NAMESPACE'', ''TZ'', ''TC_NAME''} \<inter> set (map env_Name (ca_Env baseSpec)) = {} \<and>
          distinct (map env_Name (ca_Env baseSpec)) \<longrightarrow> c_Env ?disc = ?fixed @ ca_Env baseSpec"
    unfolding env using AppendEnv_fresh [of ?fixed "ca_Env baseSpec"] names by metis
  have c7: "\<forall>d. getTidbDiscoveryDeployment deps obj = Inr d \<and>
              ps_Containers (ca_BuildPodSpec baseSpec) = [] \<and>
              find (\<lambda>p. c_Name p = ''discovery'') (ca_AdditionalContainers baseSpec) = None \<longrightarrow>
              (\<exists>c cs. ps_Containers (podSpecOf d) = c # cs \<and> c_Name c = ''discovery'' \<and>
                 c_Env c = AppendEnv ?fixed (ca_Env baseSpec) @
                   (if tlsWiringApplies obj
                    then [\<lparr> env_Name = ''TC_TLS_ENABLED'', env_Value = ''true'', env_ValueFrom = None \<rparr>]
                    else []))"
  proof (intro allI impI, elim conjE)
    fix d
    assume build: "getTidbDiscoveryDeployment deps obj = Inr d"
      and skel: "ps_Containers (ca_BuildPodSpec baseSpec) = []"
      and nopatch: "find (\<lambda>p. c_Name p = ''discovery'') (ca_AdditionalContainers baseSpec) = None"
    from build_podSpec [OF build] obtain meta l base where
      ps: "discoveryPodSpec deps obj = Inr (meta, l, base, podSpecOf d)" by blast
    from discoveryPodSpec_shape [OF ps] known obtain c cs where
      base: "base = baseSpec" and
      merge: "MergePatchContainers (StrategicMergePatch deps)
        (ps_Containers (ca_BuildPodSpec baseSpec) @ [?disc])
        (ca_AdditionalContainers baseSpec) = Inr (c # cs)" and
      cont: "ps_Containers (podSpecOf d) =
       (if tlsWiringApplies obj
        then c\<lparr> c_VolumeMounts := c_VolumeMounts c @ [pdTlsVolumeMount],
                c_Env := c_Env c @ [tlsEnabledEnv] \<rparr> # cs
        else c # cs)"
      by auto
    from merge skel have "MergePatchContainers (StrategicMergePatch deps) [?disc]
        (ca_AdditionalContainers baseSpec) = Inr (c # cs)" by simp
    from MergePatchContainers_single [OF this] nopatch have c: "c = ?disc"
      by (simp add: discoveryContainer_name)
    show "\<exists>c cs. ps_Containers (podSpecOf d) = c # cs \<and> c_Name c = ''discovery'' \<and>
                 c_Env c = AppendEnv ?fixed (ca_Env baseSpec) @
                   (if tlsWiringApplies obj
                    then [\<lparr> env_Name = ''TC_TLS_ENABLED'', env_Value = ''true'', env_ValueFrom = None \<rparr>]
                    else [])"
      by (simp add: cont c env discoveryContainer_name tlsEnabledEnv_def)
  qed
  from c1 c2 c3 c4 c5 c6 c7 show ?thesis by blast
qed


theorem discovery_environment_witness:
  "discoverySettings (TidbClusterObj fooTidb) = Inr ([], ''UTC'', demoBase) \<and>
   ''TZ'' \<in> set (map env_Name (ca_Env demoBase)) \<and>
   ''TC_NAME'' \<notin> set (map env_Name (ca_Env demoBase)) \<and>
   lookupEnv ''TZ'' (c_Env (discoveryContainer demoDeps [] ''UTC'' ''foo'' demoBase)) =
     Some \<lparr> env_Name = ''TZ'', env_Value = ''Asia/Tokyo'', env_ValueFrom = None \<rparr> \<and>
   lookupEnv ''TC_NAME'' (c_Env (discoveryContainer demoDeps [] ''UTC'' ''foo'' demoBase)) =
     Some \<lparr> env_Name = ''TC_NAME'', env_Value = ''foo'', env_ValueFrom = None \<rparr> \<and>
   (\<exists>d c cs. getTidbDiscoveryDeployment demoDeps (TidbClusterObj fooTidb) = Inr d \<and>
      ps_Containers (podSpecOf d) = c # cs \<and>
      map env_Name (c_Env c) = [''MY_POD_NAMESPACE'', ''TZ'', ''TC_NAME'', ''FOO'', ''TC_TLS_ENABLED''] \<and>
      map env_Value (c_Env c) = [[], ''Asia/Tokyo'', ''foo'', ''bar'', ''true''])"
proof -
  have known: "discoverySettings (TidbClusterObj fooTidb) = Inr ([], ''UTC'', demoBase)"
    by (simp add: fooTidb_sel)
  note inst = discovery_environment [OF known, of demoDeps, unfolded GetName.simps fooTidb_sel]
  have tz: "''TZ'' \<in> set (map env_Name (ca_Env demoBase))"
    and nm: "''TC_NAME'' \<notin> set (map env_Name (ca_Env demoBase))"
    by (simp_all add: demoBase_sel)
  from inst tz have l1: "lookupEnv ''TZ'' (c_Env (discoveryContainer demoDeps [] ''UTC'' ''foo'' demoBase)) =
      find (\<lambda>e. env_Name e = ''TZ'') (rev (ca_Env demoBase))"
    by blast
  from inst nm have l2: "lookupEnv ''TC_NAME'' (c_Env (discoveryContainer demoDeps [] ''UTC'' ''foo'' demoBase)) =
      lookupEnv ''TC_NAME'' (fixedEnvs ''UTC'' ''foo'')"
    by blast
  obtain d where build: "getTidbDiscoveryDeployment demoDeps (TidbClusterObj fooTidb) = Inr d"
    using demo_build_Tidb by blast
  have skel: "ps_Containers (ca_BuildPodSpec demoBase) = []"
    and nopatch: "find (\<lambda>p. c_Name p = ''discovery'') (ca_AdditionalContainers demoBase) = None"
    by (simp_all add: demoBase_sel)
  from inst build skel nopatch obtain c cs where
    cont: "ps_Containers (podSpecOf d) = c # cs" and
    env: "c_Env c = AppendEnv (fixedEnvs ''UTC'' ''foo'') (ca_Env demoBase) @
                   (if tlsWiringApplies (TidbClusterObj fooTidb)
                    then [\<lparr> env_Name = ''TC_TLS_ENABLED'', env_Value = ''true'', env_ValueFrom = None \<rparr>]
                    else [])"
    by blast
  have ev: "AppendEnv (fixedEnvs ''UTC'' ''foo'') (ca_Env demoBase) =
       [ \<lparr> env_Name = ''MY_POD_NAMESPACE'', env_Value = [],
                   env_ValueFrom = Some (FieldRef ''metadata.namespace'') \<rparr>,
                 \<lparr> env_Name = ''TZ'', env_Value = ''Asia/Tokyo'', env_ValueFrom = None \<rparr>,
                 \<lparr> env_Name = ''TC_NAME'', env_Value = ''foo'', env_ValueFrom = None \<rparr>,
                 \<lparr> env_Name = ''FOO'', env_Value = ''bar'', env_ValueFrom = None \<rparr> ]"
    by (simp add: fixedEnvs_def demoBase_sel overrideStep_def)
  have "\<exists>d c cs. getTidbDiscoveryDeployment demoDeps (TidbClusterObj fooTidb) = Inr d \<and>
      ps_Containers (podSpecOf d) = c # cs \<and>
      map env_Name (c_Env c) = [''MY_POD_NAMESPACE'', ''TZ'', ''TC_NAME'', ''FOO'', ''TC_TLS_ENABLED''] \<and>
      map env_Value (c_Env c) = [[], ''Asia/Tokyo'', ''foo'', ''bar'', ''true'']"
    apply (rule exI [of _ d], rule exI [of _ c], rule exI [of _ cs])
    using build cont by (simp add: env ev fooTidb_sel)
  moreover have "lookupEnv ''TZ'' (c_Env (discoveryContainer demoDeps [] ''UTC'' ''foo'' demoBase)) =
     Some \<lparr> env_Name = ''TZ'', env_Value = ''Asia/Tokyo'', env_ValueFrom = None \<rparr>"
    unfolding l1 by (simp add: demoBase_sel)
  moreover have "lookupEnv ''TC_NAME'' (c_Env (discoveryContainer demoDeps [] ''UTC'' ''foo'' demoBase)) =
     Some \<lparr> env_Name = ''TC_NAME'', env_Value = ''foo'', env_ValueFrom = None \<rparr>"
    unfolding l2 by (simp add: fixedEnvs_def lookupEnv_def)
  ultimately show ?thesis
    using known tz nm by blast
qed

section \<open>The pod template\<close>

text \<open>
  C3. In a built Deployment the labels of the pod template are \<open>CombineStringMap\<close> of the
  derived discovery label and the labels of the base spec: a key of the base spec has
  the base spec's value, any other key has the value of the discovery label. The
  annotations of the pod template are the annotations of the base spec.
\<close>

theorem pod_template_labels:
  assumes build: "getTidbDiscoveryDeployment deps obj = Inr d"
  shows "\<exists>resources timezone baseSpec meta l.
     discoverySettings obj = Inr (resources, timezone, baseSpec) \<and>
     getDiscoveryMeta deps obj (DiscoveryMemberName deps) = Inr (meta, l) \<and>
     pt_Labels (ds_Template (d_Spec d)) = CombineStringMap l (ca_Labels baseSpec) \<and>
     (\<forall>k v. ca_Labels baseSpec k = Some v \<longrightarrow> pt_Labels (ds_Template (d_Spec d)) k = Some v) \<and>
     (\<forall>k. ca_Labels baseSpec k = None \<longrightarrow> pt_Labels (ds_Template (d_Spec d)) k = l k) \<and>
     pt_Annotations (ds_Template (d_Spec d)) = ca_Annotations baseSpec"
proof -
  from build_shape [OF build] obtain meta l base where
    ps: "discoveryPodSpec deps obj = Inr (meta, l, base, podSpecOf d)" and
    lab: "pt_Labels (ds_Template (d_Spec d)) = CombineStringMap l (ca_Labels base)" and
    ann: "pt_Annotations (ds_Template (d_Spec d)) = ca_Annotations base"
    by blast
  from discoveryPodSpec_shape [OF ps] obtain res tz where
    s: "discoverySettings obj = Inr (res, tz, base)" and
    m: "getDiscoveryMeta deps obj (DiscoveryMemberName deps) = Inr (meta, l)"
    by blast
  have win: "\<forall>k v. ca_Labels base k = Some v \<longrightarrow> pt_Labels (ds_Template (d_Spec d)) k = Some v"
    by (simp add: lab CombineStringMap_def)
  have keep: "\<forall>k. ca_Labels base k = None \<longrightarrow> pt_Labels (ds_Template (d_Spec d)) k = l k"
    by (simp add: lab CombineStringMap_def map_add_def)
  from s m lab ann win keep show ?thesis by blast
qed

theorem pod_template_labels_witness:
  "\<exists>d. getTidbDiscoveryDeployment demoDeps (TidbClusterObj fooTidb) = Inr d \<and>
     ca_Labels demoBase ''component'' = Some ''custom'' \<and>
     ca_Labels demoBase ''instance'' = None \<and>
     pt_Labels (ds_Template (d_Spec d)) ''component'' = Some ''custom'' \<and>
     pt_Labels (ds_Template (d_Spec d)) ''instance'' = Some ''foo'' \<and>
     pt_Labels (ds_Template (d_Spec d)) ''team'' = Some ''db'' \<and>
     pt_Annotations (ds_Template (d_Spec d)) = [''note'' \<mapsto> ''x'']"
proof -
  obtain d where build: "getTidbDiscoveryDeployment demoDeps (TidbClusterObj fooTidb) = Inr d"
    using demo_build_Tidb by blast
  from pod_template_labels [OF build] obtain l where
    win: "\<forall>k v. ca_Labels demoBase k = Some v \<longrightarrow> pt_Labels (ds_Template (d_Spec d)) k = Some v" and
    keep: "\<forall>k. ca_Labels demoBase k = None \<longrightarrow> pt_Labels (ds_Template (d_Spec d)) k = l k" and
    l: "l = label_Discovery demoDeps (label_Instance demoDeps ''foo'' (label_New demoDeps))" and
    ann: "pt_Annotations (ds_Template (d_Spec d)) = ca_Annotations demoBase"
    by (auto simp: getDiscoveryMeta_Tidb fooTidb_sel)
  have b1: "ca_Labels demoBase ''component'' = Some ''custom''"
    and b2: "ca_Labels demoBase ''instance'' = None"
    and b3: "ca_Labels demoBase ''team'' = Some ''db''"
    by (simp_all add: demoBase_sel)
  have i: "l ''instance'' = Some ''foo''"
    by (simp add: l label_Discovery_def label_Instance_def demoDeps_sel)
  from win b1 have w1: "pt_Labels (ds_Template (d_Spec d)) ''component'' = Some ''custom''" by blast
  from win b3 have w3: "pt_Labels (ds_Template (d_Spec d)) ''team'' = Some ''db''" by blast
  from keep b2 i have w2: "pt_Labels (ds_Template (d_Spec d)) ''instance'' = Some ''foo''" by simp
  show ?thesis
    apply (rule exI [of _ d])
    using build b1 b2 w1 w2 w3 ann by (simp add: demoBase_sel)
qed

section \<open>The order of the apply operations and their failures\<close>

lemma discoveryPodSpec_error_is_plain:
  assumes "needsDiscovery obj" and "discoveryPodSpec deps obj = Inl e"
  shows "\<exists>m. e = PlainError m"
proof (cases obj)
  case (TidbClusterObj tc)
  with assms(2) show ?thesis
    by (auto simp: discoveryPodSpec_def getDiscoveryMeta_Tidb Let_def
        split: sum.splits list.splits if_splits dest: MergePatchContainers_nonempty)
next
  case (DMClusterObj dm)
  with assms(2) show ?thesis
    by (auto simp: discoveryPodSpec_def getDiscoveryMeta_DM Let_def
        split: sum.splits list.splits if_splits dest: MergePatchContainers_nonempty)
qed (use assms(1) in simp_all)

lemma build_error_is_plain:
  assumes "needsDiscovery obj" and "getTidbDiscoveryDeployment deps obj = Inl e"
  shows "\<exists>m. e = PlainError m"
  using assms
  by (auto simp: getTidbDiscoveryDeployment_def Let_def split: sum.splits prod.splits
      dest: discoveryPodSpec_error_is_plain)

lemma meta_known:
  "needsDiscovery obj \<Longrightarrow> \<exists>meta l. getDiscoveryMeta deps obj nameFunc = Inr (meta, l)"
  by (cases obj) (simp_all add: getDiscoveryMeta_Tidb getDiscoveryMeta_DM)

lemma service_known:
  "getDiscoveryMeta deps obj (DiscoveryMemberName deps) = Inr (meta, l) \<Longrightarrow>
   getTidbDiscoveryService deps obj deploy v6 =
     Inr ((if v6 then SetServiceWhenPreferIPv6 else (\<lambda>svc. svc))
        \<lparr> svc_ObjectMeta = meta,
          svc_Spec = \<lparr> ss_Type = ''ClusterIP'',
                       ss_Ports =
                         [ \<lparr> sp_Name = ''discovery'', sp_Port = 10261,
                             sp_TargetPort = 10261, sp_Protocol = ''TCP'' \<rparr>,
                           \<lparr> sp_Name = ''proxy'', sp_Port = 10262,
                             sp_TargetPort = 10262, sp_Protocol = ''TCP'' \<rparr> ],
                       ss_Selector = pt_Labels (ds_Template (d_Spec deploy)),
                       ss_IPFamilyPolicy = None,
                       ss_IPFamilies = [] \<rparr> \<rparr>)"
  by (simp add: getTidbDiscoveryService_def Let_def)

lemma reconcileResources_order:
  assumes known: "needsDiscovery obj"
      and run: "reconcileResources deps ctl obj rule v6 s = (res, evs, s')"
  shows "prefix (map eventKind evs) [KRole, KServiceAccount, KRoleBinding, KDeployment, KService] \<and>
         (\<forall>e \<in> set (butlast evs). \<not> failed e) \<and>
         (res = None \<longleftrightarrow> length evs = 5 \<and> (\<forall>e \<in> set evs. \<not> failed e)) \<and>
         (res \<noteq> None \<longrightarrow> (\<exists>m. res = Some (RequeueError m))) \<and>
         (\<forall>e \<in> set evs. failed e \<longrightarrow>
            (\<exists>m. res = Some (RequeueError m) \<and> suffix (failureText e) m)) \<and>
         (\<forall>e. getTidbDiscoveryDeployment deps obj = Inl e \<longrightarrow>
            length evs \<le> 3 \<and>
            ((\<forall>x \<in> set evs. \<not> failed x) \<longrightarrow>
               length evs = 3 \<and> (\<exists>m. res = Some (RequeueError m) \<and> suffix (errorText e) m)))"
proof -
  from meta_known [OF known] obtain meta l where
    m: "getDiscoveryMeta deps obj (DiscoveryMemberName deps) = Inr (meta, l)" by blast
  note svc = service_known [OF m]
  have bld: "\<And>e. getTidbDiscoveryDeployment deps obj = Inl e \<Longrightarrow> \<exists>m. e = PlainError m"
    using build_error_is_plain [OF known] by blast
  from run show ?thesis
    unfolding reconcileResources_def m
    using bld
    by (auto simp: Let_def svc suffix_Cons split: sum.splits prod.splits error.splits)
qed

lemma reconcileResources_service:
  assumes known: "needsDiscovery obj"
      and run: "reconcileResources deps ctl obj rule v6 s = (res, evs, s')"
      and ev: "ApplyService svc r \<in> set evs"
  shows "\<exists>d deploy. ApplyDeployment d (Inr deploy) \<in> set evs \<and>
           getTidbDiscoveryService deps obj deploy v6 = Inr svc \<and>
           ss_Selector (svc_Spec svc) = pt_Labels (ds_Template (d_Spec deploy)) \<and>
           ss_Type (svc_Spec svc) = ''ClusterIP'' \<and>
           ss_Ports (svc_Spec svc) =
             [ \<lparr> sp_Name = ''discovery'', sp_Port = 10261, sp_TargetPort = 10261, sp_Protocol = ''TCP'' \<rparr>,
               \<lparr> sp_Name = ''proxy'', sp_Port = 10262, sp_TargetPort = 10262, sp_Protocol = ''TCP'' \<rparr> ]"
proof -
  from meta_known [OF known] obtain meta l where
    m: "getDiscoveryMeta deps obj (DiscoveryMemberName deps) = Inr (meta, l)" by blast
  note svc = service_known [OF m]
  from run ev show ?thesis
    unfolding reconcileResources_def m
    by (auto simp: Let_def svc SetServiceWhenPreferIPv6_def split: sum.splits prod.splits error.splits)
qed

lemma reconcileResources_requests:
  assumes run1: "reconcileResources deps ctl1 obj rule v6 s1 = (res1, evs1, s1')"
      and run2: "reconcileResources deps ctl2 obj rule v6 s2 = (res2, evs2, s2')"
  shows "prefix (take 4 (map request evs1)) (take 4 (map request evs2)) \<or>
         prefix (take 4 (map request evs2)) (take 4 (map request evs1))"
  using run1 run2
  unfolding reconcileResources_def
  by (auto simp: Let_def split: sum.splits prod.splits error.splits)

lemma reconcileResources_deployment:
  assumes run: "reconcileResources deps ctl obj rule v6 s = (res, evs, s')"
      and ev: "ApplyDeployment d r \<in> set evs"
  shows "getTidbDiscoveryDeployment deps obj = Inr d"
  using run ev
  unfolding reconcileResources_def
  by (auto simp: Let_def split: sum.splits prod.splits error.splits)

lemma reconcileResources_service2:
  assumes known: "needsDiscovery obj"
      and run: "reconcileResources deps ctl obj rule v6 s = (res, evs, s')"
      and ev: "ApplyService svc r \<in> set evs"
      and dv: "ApplyDeployment d (Inr deploy) \<in> set evs"
  shows "getTidbDiscoveryService deps obj deploy v6 = Inr svc"
proof -
  from meta_known [OF known] obtain meta l where
    m: "getDiscoveryMeta deps obj (DiscoveryMemberName deps) = Inr (meta, l)" by blast
  note svc = service_known [OF m]
  from run ev dv show ?thesis
    unfolding reconcileResources_def m
    by (auto simp: Let_def svc split: sum.splits prod.splits error.splits)
qed

lemma Reconcile_Tidb:
  "needsDiscovery (TidbClusterObj tc) \<Longrightarrow>
   Reconcile deps ctl (TidbClusterObj tc) s =
     reconcileResources deps ctl (TidbClusterObj tc)
       \<lparr> pr_APIGroups = [GroupName deps], pr_Resources = [TiDBClusterName deps],
         pr_ResourceNames = [tc_Name tc], pr_Verbs = [''get''] \<rparr>
       (tc_PreferIPv6 tc) s"
  by (auto simp: Reconcile_def)

lemma Reconcile_DM:
  "Reconcile deps ctl (DMClusterObj dm) s =
     reconcileResources deps ctl (DMClusterObj dm)
       \<lparr> pr_APIGroups = [GroupName deps], pr_Resources = [DMClusterName deps],
         pr_ResourceNames = [dm_Name dm], pr_Verbs = [''get''] \<rparr>
       False s"
  by (simp add: Reconcile_def)

lemma Reconcile_needs:
  assumes "needsDiscovery obj"
  shows "\<exists>rule v6. Reconcile deps ctl obj s = reconcileResources deps ctl obj rule v6 s"
proof (cases obj)
  case (TidbClusterObj tc)
  with assms show ?thesis by (auto simp: Reconcile_Tidb)
next
  case (DMClusterObj dm)
  then show ?thesis by (auto simp: Reconcile_DM)
qed (use assms in simp_all)

lemma Reconcile_idle:
  assumes "\<not> needsDiscovery obj"
  shows "fst (snd (Reconcile deps ctl obj s)) = [] \<or>
         fst (snd (Reconcile deps ctl obj s)) =
           [LogWarning (''unsupported type '' @ typeName obj @ '' for discovery'')]"
  using assms by (cases obj) (simp_all add: Reconcile_def)

lemma join_conjuncts:
  "A \<and> B \<and> C \<and> D \<and> E \<and> F \<Longrightarrow> G \<Longrightarrow> H \<Longrightarrow> I \<Longrightarrow>
   A \<and> B \<and> C \<and> D \<and> E \<and> F \<and> G \<and> H \<and> I"
  by blast

lemma Reconcile_resources:
  "needsDiscovery obj \<Longrightarrow>
   Reconcile deps ctl obj s =
     reconcileResources deps ctl obj (clusterPolicyRuleOf deps obj) (preferIPv6Of obj) s"
  by (cases obj) (simp_all add: Reconcile_Tidb Reconcile_DM clusterPolicyRuleOf_def)

lemma reconcileResources_progress:
  assumes known: "needsDiscovery obj"
      and run: "reconcileResources deps ctl obj rule v6 s = (res, evs, s')"
  shows "(\<forall>e \<in> set evs. \<not> failed e) \<longrightarrow>
           (\<forall>d. getTidbDiscoveryDeployment deps obj = Inr d \<longrightarrow> res = None \<and> length evs = 5)"
proof -
  from meta_known [OF known] obtain meta l where
    m: "getDiscoveryMeta deps obj (DiscoveryMemberName deps) = Inr (meta, l)" by blast
  note svc = service_known [OF m]
  from run show ?thesis
    unfolding reconcileResources_def m
    by (auto simp: Let_def svc split: sum.splits prod.splits error.splits)
qed

lemma reconcileResources_desired:
  assumes m: "getDiscoveryMeta deps obj (DiscoveryMemberName deps) = Inr (meta, l)"
      and run: "reconcileResources deps ctl obj rule v6 s = (res, evs, s')"
  shows "(\<forall>x r. ApplyRole x r \<in> set evs \<longrightarrow>
            x = \<lparr> role_ObjectMeta = meta,
                  role_Rules = [ rule,
                                 \<lparr> pr_APIGroups = [[]], pr_Resources = [''secrets''],
                                   pr_ResourceNames = [],
                                   pr_Verbs = [''get'', ''list'', ''watch''] \<rparr> ] \<rparr>) \<and>
         (\<forall>x r. ApplyServiceAccount x r \<in> set evs \<longrightarrow> x = \<lparr> sa_ObjectMeta = meta \<rparr>) \<and>
         (\<forall>x r. ApplyRoleBinding x r \<in> set evs \<longrightarrow>
            x = \<lparr> rb_ObjectMeta = meta,
                  rb_Subjects = [\<lparr> subj_Kind = ''ServiceAccount'', subj_Name = om_Name meta \<rparr>],
                  rb_RoleRef = \<lparr> rr_Kind = ''Role'', rr_Name = om_Name meta,
                                 rr_APIGroup = ''rbac.authorization.k8s.io'' \<rparr> \<rparr>) \<and>
         (\<forall>x r. ApplyDeployment x r \<in> set evs \<longrightarrow> getTidbDiscoveryDeployment deps obj = Inr x) \<and>
         (\<forall>x r. ApplyService x r \<in> set evs \<longrightarrow>
            (\<exists>d deploy. ApplyDeployment d (Inr deploy) \<in> set evs \<and>
               getTidbDiscoveryService deps obj deploy v6 = Inr x))"
  using run
  unfolding reconcileResources_def m
  by (auto simp: Let_def service_known [OF m] split: sum.splits prod.splits error.splits)

lemma reconcileResources_thread:
  assumes run: "reconcileResources deps ctl obj rule v6 s = (res, evs, s')"
  shows "applyEvents ctl obj evs s = (evs, s')"
  using run
  unfolding reconcileResources_def
  by (auto simp: Let_def split: sum.splits prod.splits error.splits)

text \<open>
  C7. For an object that needs discovery, the apply operations of a call of Reconcile are
  an initial segment of Role, ServiceAccount, RoleBinding, Deployment, Service, in that
  order; only the last operation done can have failed; Reconcile returns nil exactly when
  all five were done and none failed, and otherwise an error made by RequeueErrorf; when
  an operation failed, the message of that error ends with the text the operation
  returned; when building the Deployment fails, neither the Deployment nor the Service
  is applied, and if the three operations before succeeded the error ends with the text
  of the build error. When no operation failed and the Deployment builds, all five are
  done and Reconcile returns nil. The desired objects are the Role with the derived meta
  and the two rules, the ServiceAccount with the derived meta, the RoleBinding of the
  two, the Deployment that \<open>getTidbDiscoveryDeployment\<close> builds, and the Service that
  \<open>getTidbDiscoveryService\<close> builds from the applied Deployment. Each operation is done
  on the API server in the state the operation before left, the events hold what the
  operations returned, and the final state is the one the last operation left.
\<close>

theorem Reconcile_order_and_requeue:
  assumes known: "needsDiscovery obj"
      and run: "Reconcile deps ctl obj s = (res, evs, s')"
  shows "prefix (map eventKind evs) [KRole, KServiceAccount, KRoleBinding, KDeployment, KService] \<and>
         (\<forall>e \<in> set (butlast evs). \<not> failed e) \<and>
         (res = None \<longleftrightarrow> length evs = 5 \<and> (\<forall>e \<in> set evs. \<not> failed e)) \<and>
         (res \<noteq> None \<longrightarrow> (\<exists>m. res = Some (RequeueError m))) \<and>
         (\<forall>e \<in> set evs. failed e \<longrightarrow>
            (\<exists>m. res = Some (RequeueError m) \<and> suffix (failureText e) m)) \<and>
         (\<forall>e. getTidbDiscoveryDeployment deps obj = Inl e \<longrightarrow>
            length evs \<le> 3 \<and>
            ((\<forall>x \<in> set evs. \<not> failed x) \<longrightarrow>
               length evs = 3 \<and> (\<exists>m. res = Some (RequeueError m) \<and> suffix (errorText e) m))) \<and>
         ((\<forall>e \<in> set evs. \<not> failed e) \<longrightarrow>
            (\<forall>d. getTidbDiscoveryDeployment deps obj = Inr d \<longrightarrow> res = None \<and> length evs = 5)) \<and>
         (\<exists>meta l.
            getDiscoveryMeta deps obj (DiscoveryMemberName deps) = Inr (meta, l) \<and>
            (\<forall>x r. ApplyRole x r \<in> set evs \<longrightarrow>
               x = \<lparr> role_ObjectMeta = meta,
                     role_Rules = [ clusterPolicyRuleOf deps obj,
                                    \<lparr> pr_APIGroups = [[]], pr_Resources = [''secrets''],
                                      pr_ResourceNames = [],
                                      pr_Verbs = [''get'', ''list'', ''watch''] \<rparr> ] \<rparr>) \<and>
            (\<forall>x r. ApplyServiceAccount x r \<in> set evs \<longrightarrow> x = \<lparr> sa_ObjectMeta = meta \<rparr>) \<and>
            (\<forall>x r. ApplyRoleBinding x r \<in> set evs \<longrightarrow>
               x = \<lparr> rb_ObjectMeta = meta,
                     rb_Subjects = [\<lparr> subj_Kind = ''ServiceAccount'', subj_Name = om_Name meta \<rparr>],
                     rb_RoleRef = \<lparr> rr_Kind = ''Role'', rr_Name = om_Name meta,
                                    rr_APIGroup = ''rbac.authorization.k8s.io'' \<rparr> \<rparr>) \<and>
            (\<forall>x r. ApplyDeployment x r \<in> set evs \<longrightarrow>
               getTidbDiscoveryDeployment deps obj = Inr x) \<and>
            (\<forall>x r. ApplyService x r \<in> set evs \<longrightarrow>
               (\<exists>d deploy. ApplyDeployment d (Inr deploy) \<in> set evs \<and>
                  getTidbDiscoveryService deps obj deploy (preferIPv6Of obj) = Inr x))) \<and>
         applyEvents ctl obj evs s = (evs, s')"
proof -
  from Reconcile_resources [OF known, of deps ctl s] run have
    rr: "reconcileResources deps ctl obj (clusterPolicyRuleOf deps obj) (preferIPv6Of obj) s =
           (res, evs, s')"
    by simp
  from meta_known [OF known] obtain meta l where
    m: "getDiscoveryMeta deps obj (DiscoveryMemberName deps) = Inr (meta, l)" by blast
  have a: "prefix (map eventKind evs) [KRole, KServiceAccount, KRoleBinding, KDeployment, KService] \<and>
         (\<forall>e \<in> set (butlast evs). \<not> failed e) \<and>
         (res = None \<longleftrightarrow> length evs = 5 \<and> (\<forall>e \<in> set evs. \<not> failed e)) \<and>
         (res \<noteq> None \<longrightarrow> (\<exists>m. res = Some (RequeueError m))) \<and>
         (\<forall>e \<in> set evs. failed e \<longrightarrow>
            (\<exists>m. res = Some (RequeueError m) \<and> suffix (failureText e) m)) \<and>
         (\<forall>e. getTidbDiscoveryDeployment deps obj = Inl e \<longrightarrow>
            length evs \<le> 3 \<and>
            ((\<forall>x \<in> set evs. \<not> failed x) \<longrightarrow>
               length evs = 3 \<and> (\<exists>m. res = Some (RequeueError m) \<and> suffix (errorText e) m)))"
    by (rule reconcileResources_order [OF known rr])
  have b: "((\<forall>e \<in> set evs. \<not> failed e) \<longrightarrow>
            (\<forall>d. getTidbDiscoveryDeployment deps obj = Inr d \<longrightarrow> res = None \<and> length evs = 5))"
    by (rule reconcileResources_progress [OF known rr])
  have c: "(\<forall>x r. ApplyRole x r \<in> set evs \<longrightarrow>
               x = \<lparr> role_ObjectMeta = meta,
                     role_Rules = [ clusterPolicyRuleOf deps obj,
                                    \<lparr> pr_APIGroups = [[]], pr_Resources = [''secrets''],
                                      pr_ResourceNames = [],
                                      pr_Verbs = [''get'', ''list'', ''watch''] \<rparr> ] \<rparr>) \<and>
            (\<forall>x r. ApplyServiceAccount x r \<in> set evs \<longrightarrow> x = \<lparr> sa_ObjectMeta = meta \<rparr>) \<and>
            (\<forall>x r. ApplyRoleBinding x r \<in> set evs \<longrightarrow>
               x = \<lparr> rb_ObjectMeta = meta,
                     rb_Subjects = [\<lparr> subj_Kind = ''ServiceAccount'', subj_Name = om_Name meta \<rparr>],
                     rb_RoleRef = \<lparr> rr_Kind = ''Role'', rr_Name = om_Name meta,
                                    rr_APIGroup = ''rbac.authorization.k8s.io'' \<rparr> \<rparr>) \<and>
            (\<forall>x r. ApplyDeployment x r \<in> set evs \<longrightarrow>
               getTidbDiscoveryDeployment deps obj = Inr x) \<and>
            (\<forall>x r. ApplyService x r \<in> set evs \<longrightarrow>
               (\<exists>d deploy. ApplyDeployment d (Inr deploy) \<in> set evs \<and>
                  getTidbDiscoveryService deps obj deploy (preferIPv6Of obj) = Inr x))"
    by (rule reconcileResources_desired [OF m rr])
  have e: "(\<exists>meta l.
            getDiscoveryMeta deps obj (DiscoveryMemberName deps) = Inr (meta, l) \<and>
            (\<forall>x r. ApplyRole x r \<in> set evs \<longrightarrow>
               x = \<lparr> role_ObjectMeta = meta,
                     role_Rules = [ clusterPolicyRuleOf deps obj,
                                    \<lparr> pr_APIGroups = [[]], pr_Resources = [''secrets''],
                                      pr_ResourceNames = [],
                                      pr_Verbs = [''get'', ''list'', ''watch''] \<rparr> ] \<rparr>) \<and>
            (\<forall>x r. ApplyServiceAccount x r \<in> set evs \<longrightarrow> x = \<lparr> sa_ObjectMeta = meta \<rparr>) \<and>
            (\<forall>x r. ApplyRoleBinding x r \<in> set evs \<longrightarrow>
               x = \<lparr> rb_ObjectMeta = meta,
                     rb_Subjects = [\<lparr> subj_Kind = ''ServiceAccount'', subj_Name = om_Name meta \<rparr>],
                     rb_RoleRef = \<lparr> rr_Kind = ''Role'', rr_Name = om_Name meta,
                                    rr_APIGroup = ''rbac.authorization.k8s.io'' \<rparr> \<rparr>) \<and>
            (\<forall>x r. ApplyDeployment x r \<in> set evs \<longrightarrow>
               getTidbDiscoveryDeployment deps obj = Inr x) \<and>
            (\<forall>x r. ApplyService x r \<in> set evs \<longrightarrow>
               (\<exists>d deploy. ApplyDeployment d (Inr deploy) \<in> set evs \<and>
                  getTidbDiscoveryService deps obj deploy (preferIPv6Of obj) = Inr x)))"
    using m c by blast
  have d: "applyEvents ctl obj evs s = (evs, s')"
    by (rule reconcileResources_thread [OF rr])
  show ?thesis
    by (rule join_conjuncts [OF a b e d])
qed

text \<open>
  C4. Whenever Reconcile applies a Service, it has applied a Deployment before with
  success, and the Service is of type ClusterIP, has exactly the two TCP ports 10261
  (discovery) and 10262 (proxy), and its selector is the pod-template labels of the
  Deployment that the apply operation returned.
\<close>

theorem service_selector:
  assumes run: "Reconcile deps ctl obj s = (res, evs, s')"
      and ev: "ApplyService svc r \<in> set evs"
  shows "\<exists>d deploy. ApplyDeployment d (Inr deploy) \<in> set evs \<and>
           ss_Selector (svc_Spec svc) = pt_Labels (ds_Template (d_Spec deploy)) \<and>
           ss_Type (svc_Spec svc) = ''ClusterIP'' \<and>
           ss_Ports (svc_Spec svc) =
             [ \<lparr> sp_Name = ''discovery'', sp_Port = 10261, sp_TargetPort = 10261, sp_Protocol = ''TCP'' \<rparr>,
               \<lparr> sp_Name = ''proxy'', sp_Port = 10262, sp_TargetPort = 10262, sp_Protocol = ''TCP'' \<rparr> ]"
proof (cases "needsDiscovery obj")
  case True
  from Reconcile_needs [OF True, of deps ctl s] obtain rule v6 where
    "Reconcile deps ctl obj s = reconcileResources deps ctl obj rule v6 s"
    by blast
  with run have rr: "reconcileResources deps ctl obj rule v6 s = (res, evs, s')" by simp
  from reconcileResources_service [OF True rr ev] show ?thesis by blast
next
  case False
  from Reconcile_idle [OF False, of deps ctl s] run ev show ?thesis by auto
qed

lemma fingerprint_core:
  assumes True: "needsDiscovery obj"
      and rr1: "reconcileResources deps ctl1 obj rule v6 s1 = (res1, evs1, s1')"
      and rr2: "reconcileResources deps ctl2 obj rule v6 s2 = (res2, evs2, s2')"
  shows "(prefix (take 4 (map request evs1)) (take 4 (map request evs2)) \<or>
          prefix (take 4 (map request evs2)) (take 4 (map request evs1))) \<and>
         (\<forall>d1 r1 d2 r2. ApplyDeployment d1 r1 \<in> set evs1 \<and> ApplyDeployment d2 r2 \<in> set evs2 \<longrightarrow>
            d1 = d2 \<and> getTidbDiscoveryDeployment deps obj = Inr d1 \<and>
            (\<exists>b. json_Marshal deps (podSpecOf d1) = Inr b \<and>
                 om_Annotations (d_ObjectMeta d1) (LastAppliedPodTemplate deps) = Some b)) \<and>
         (\<forall>svc1 q1 svc2 q2 d1 a1 d2 a2.
            ApplyService svc1 q1 \<in> set evs1 \<and> ApplyService svc2 q2 \<in> set evs2 \<and>
            ApplyDeployment d1 (Inr a1) \<in> set evs1 \<and> ApplyDeployment d2 (Inr a2) \<in> set evs2 \<and>
            pt_Labels (ds_Template (d_Spec a1)) = pt_Labels (ds_Template (d_Spec a2)) \<longrightarrow>
            svc1 = svc2)"
proof -
  have p1: "prefix (take 4 (map request evs1)) (take 4 (map request evs2)) \<or>
          prefix (take 4 (map request evs2)) (take 4 (map request evs1))"
    by (rule reconcileResources_requests [OF rr1 rr2])
  have p2: "\<forall>d1 r1 d2 r2. ApplyDeployment d1 r1 \<in> set evs1 \<and> ApplyDeployment d2 r2 \<in> set evs2 \<longrightarrow>
            d1 = d2 \<and> getTidbDiscoveryDeployment deps obj = Inr d1 \<and>
            (\<exists>b. json_Marshal deps (podSpecOf d1) = Inr b \<and>
                 om_Annotations (d_ObjectMeta d1) (LastAppliedPodTemplate deps) = Some b)"
  proof (intro allI impI, elim conjE)
    fix d1 r1 d2 r2
    assume e1: "ApplyDeployment d1 r1 \<in> set evs1" and e2: "ApplyDeployment d2 r2 \<in> set evs2"
    have b1: "getTidbDiscoveryDeployment deps obj = Inr d1"
      by (rule reconcileResources_deployment [OF rr1 e1])
    have b2: "getTidbDiscoveryDeployment deps obj = Inr d2"
      by (rule reconcileResources_deployment [OF rr2 e2])
    from build_shape [OF b1] obtain meta b where
      "json_Marshal deps (podSpecOf d1) = Inr b"
      "d_ObjectMeta d1 = meta\<lparr> om_Annotations := (om_Annotations meta)(LastAppliedPodTemplate deps \<mapsto> b) \<rparr>"
      by blast
    then have "\<exists>b. json_Marshal deps (podSpecOf d1) = Inr b \<and>
                 om_Annotations (d_ObjectMeta d1) (LastAppliedPodTemplate deps) = Some b"
      by simp
    with b1 b2 show "d1 = d2 \<and> getTidbDiscoveryDeployment deps obj = Inr d1 \<and>
            (\<exists>b. json_Marshal deps (podSpecOf d1) = Inr b \<and>
                 om_Annotations (d_ObjectMeta d1) (LastAppliedPodTemplate deps) = Some b)"
      by simp
  qed
  have p3: "\<forall>svc1 q1 svc2 q2 d1 a1 d2 a2.
            ApplyService svc1 q1 \<in> set evs1 \<and> ApplyService svc2 q2 \<in> set evs2 \<and>
            ApplyDeployment d1 (Inr a1) \<in> set evs1 \<and> ApplyDeployment d2 (Inr a2) \<in> set evs2 \<and>
            pt_Labels (ds_Template (d_Spec a1)) = pt_Labels (ds_Template (d_Spec a2)) \<longrightarrow>
            svc1 = svc2"
  proof (intro allI impI, elim conjE)
    fix svc1 q1 svc2 q2 d1 a1 d2 a2
    assume e1: "ApplyService svc1 q1 \<in> set evs1" and e2: "ApplyService svc2 q2 \<in> set evs2"
      and f1: "ApplyDeployment d1 (Inr a1) \<in> set evs1" and f2: "ApplyDeployment d2 (Inr a2) \<in> set evs2"
      and lab: "pt_Labels (ds_Template (d_Spec a1)) = pt_Labels (ds_Template (d_Spec a2))"
    from reconcileResources_service2 [OF True rr1 e1 f1]
    have g1: "getTidbDiscoveryService deps obj a1 v6 = Inr svc1" .
    from reconcileResources_service2 [OF True rr2 e2 f2]
    have g2: "getTidbDiscoveryService deps obj a2 v6 = Inr svc2" .
    from g1 g2 lab show "svc1 = svc2"
      by (auto simp: getTidbDiscoveryService_def Let_def split: sum.splits)
  qed
  from p1 p2 p3 show ?thesis by blast
qed

text \<open>
  C8. Two calls of Reconcile on the same object with the same dependencies, whatever the
  API server does and whatever its state: the desired Role, ServiceAccount, RoleBinding
  and Deployment of the call that gets less far are the first desired objects of the
  other call; a Deployment applied in both is the same object, the one that
  \<open>getTidbDiscoveryDeployment\<close> builds, and its annotation under the last-applied
  pod-template key is the serialisation of its own pod spec; and the desired Services are
  equal when the two applied Deployments have the same pod-template labels.
\<close>

theorem fingerprint_deterministic:
  assumes run1: "Reconcile deps ctl1 obj s1 = (res1, evs1, s1')"
      and run2: "Reconcile deps ctl2 obj s2 = (res2, evs2, s2')"
  shows "(prefix (take 4 (map request evs1)) (take 4 (map request evs2)) \<or>
          prefix (take 4 (map request evs2)) (take 4 (map request evs1))) \<and>
         (\<forall>d1 r1 d2 r2. ApplyDeployment d1 r1 \<in> set evs1 \<and> ApplyDeployment d2 r2 \<in> set evs2 \<longrightarrow>
            d1 = d2 \<and> getTidbDiscoveryDeployment deps obj = Inr d1 \<and>
            (\<exists>b. json_Marshal deps (podSpecOf d1) = Inr b \<and>
                 om_Annotations (d_ObjectMeta d1) (LastAppliedPodTemplate deps) = Some b)) \<and>
         (\<forall>svc1 q1 svc2 q2 d1 a1 d2 a2.
            ApplyService svc1 q1 \<in> set evs1 \<and> ApplyService svc2 q2 \<in> set evs2 \<and>
            ApplyDeployment d1 (Inr a1) \<in> set evs1 \<and> ApplyDeployment d2 (Inr a2) \<in> set evs2 \<and>
            pt_Labels (ds_Template (d_Spec a1)) = pt_Labels (ds_Template (d_Spec a2)) \<longrightarrow>
            svc1 = svc2)"
proof (cases "needsDiscovery obj")
  case True
  show ?thesis
  proof (cases obj)
    case (TidbClusterObj tc)
    with True run1 run2 show ?thesis
      by (simp only: Reconcile_Tidb) (rule fingerprint_core [OF True [unfolded TidbClusterObj]])
  next
    case (DMClusterObj dm)
    with True run1 run2 show ?thesis
      by (simp only: Reconcile_DM) (rule fingerprint_core [OF True [unfolded DMClusterObj]])
  qed (use True in simp_all)
next
  case False
  from Reconcile_idle [OF False, of deps ctl1 s1] Reconcile_idle [OF False, of deps ctl2 s2] run1 run2
  show ?thesis by auto
qed

section \<open>Runs on the example objects\<close>

lemma demoControl_sel:
  "CreateOrUpdateRole demoControl = (\<lambda>owner x s. (Inr x, Suc s))"
  "CreateOrUpdateServiceAccount demoControl = (\<lambda>owner x s. (Inr x, Suc s))"
  "CreateOrUpdateRoleBinding demoControl = (\<lambda>owner x s. (Inr x, Suc s))"
  "CreateOrUpdateDeployment demoControl = (\<lambda>owner x s.
         (Inr (x\<lparr> d_Spec := (d_Spec x)\<lparr> ds_Template := (ds_Template (d_Spec x))
                  \<lparr> pt_Labels := (pt_Labels (ds_Template (d_Spec x)))(''injected'' \<mapsto> ''yes'') \<rparr> \<rparr> \<rparr>),
          Suc s))"
  "CreateOrUpdateService demoControl = (\<lambda>owner x s. (Inr x, Suc s))"
  by (simp_all add: demoControl_def)

lemma failingControl_sel:
  "CreateOrUpdateRole failingControl = (\<lambda>owner x s. (Inr x, Suc s))"
  "CreateOrUpdateServiceAccount failingControl = (\<lambda>owner x s. (Inl ''conflict'', Suc s))"
  by (simp_all add: failingControl_def demoControl_def)

lemma demo_needs: "needsDiscovery (TidbClusterObj fooTidb)"
  by (simp add: fooTidb_sel)

lemma demo_run:
  assumes build: "getTidbDiscoveryDeployment demoDeps (TidbClusterObj fooTidb) = Inr d"
  shows "\<exists>role sa rb deploy svc.
     Reconcile demoDeps demoControl (TidbClusterObj fooTidb) s =
       (None, [ApplyRole role (Inr role), ApplyServiceAccount sa (Inr sa),
               ApplyRoleBinding rb (Inr rb), ApplyDeployment d (Inr deploy),
               ApplyService svc (Inr svc)], s + 5) \<and>
     pt_Labels (ds_Template (d_Spec deploy)) =
       (pt_Labels (ds_Template (d_Spec d)))(''injected'' \<mapsto> ''yes'') \<and>
     ss_Selector (svc_Spec svc) = pt_Labels (ds_Template (d_Spec deploy))"
  by (simp add: Reconcile_Tidb [OF demo_needs] reconcileResources_def getDiscoveryMeta_Tidb
      service_known [OF getDiscoveryMeta_Tidb] build demoControl_sel Let_def fooTidb_sel)

lemma demo_run_failing:
  "\<exists>role sa.
     Reconcile demoDeps failingControl (TidbClusterObj fooTidb) s =
       (Some (RequeueError ''error creating or updating discovery serviceaccount: conflict''),
        [ApplyRole role (Inr role), ApplyServiceAccount sa (Inl ''conflict'')], s + 2)"
  by (simp add: Reconcile_Tidb [OF demo_needs] reconcileResources_def getDiscoveryMeta_Tidb
      failingControl_sel Let_def)

theorem Reconcile_order_and_requeue_witness:
  "needsDiscovery (TidbClusterObj fooTidb) \<and>
   fst (Reconcile demoDeps failingControl (TidbClusterObj fooTidb) 0) =
     Some (RequeueError ''error creating or updating discovery serviceaccount: conflict'') \<and>
   map eventKind (fst (snd (Reconcile demoDeps failingControl (TidbClusterObj fooTidb) 0))) =
     [KRole, KServiceAccount] \<and>
   map failed (fst (snd (Reconcile demoDeps failingControl (TidbClusterObj fooTidb) 0))) =
     [False, True] \<and>
   snd (snd (Reconcile demoDeps failingControl (TidbClusterObj fooTidb) 0)) = 2 \<and>
   fst (Reconcile demoDeps demoControl (TidbClusterObj fooTidb) 0) = None \<and>
   map eventKind (fst (snd (Reconcile demoDeps demoControl (TidbClusterObj fooTidb) 0))) =
     [KRole, KServiceAccount, KRoleBinding, KDeployment, KService] \<and>
   map failed (fst (snd (Reconcile demoDeps demoControl (TidbClusterObj fooTidb) 0))) =
     [False, False, False, False, False] \<and>
   snd (snd (Reconcile demoDeps demoControl (TidbClusterObj fooTidb) 0)) = 5"
proof -
  obtain res evs s' where
    run: "Reconcile demoDeps failingControl (TidbClusterObj fooTidb) 0 = (res, evs, s')"
    by (cases "Reconcile demoDeps failingControl (TidbClusterObj fooTidb) 0") auto
  note order = Reconcile_order_and_requeue [OF demo_needs run]
  from demo_run_failing [of 0] run obtain role sa where
    evs: "evs = [ApplyRole role (Inr role), ApplyServiceAccount sa (Inl ''conflict'')]" and
    res: "res = Some (RequeueError ''error creating or updating discovery serviceaccount: conflict'')" and
    st: "s' = 2"
    by auto
  obtain d where build: "getTidbDiscoveryDeployment demoDeps (TidbClusterObj fooTidb) = Inr d"
    using demo_build_Tidb by blast
  from demo_run [OF build, of 0] obtain role' sa' rb deploy svc where
    run2: "Reconcile demoDeps demoControl (TidbClusterObj fooTidb) 0 =
       (None, [ApplyRole role' (Inr role'), ApplyServiceAccount sa' (Inr sa'),
               ApplyRoleBinding rb (Inr rb), ApplyDeployment d (Inr deploy),
               ApplyService svc (Inr svc)], 0 + 5)"
    by blast
  note order2 = Reconcile_order_and_requeue [OF demo_needs run2]
  from order order2 have "needsDiscovery (TidbClusterObj fooTidb)"
    by (simp add: fooTidb_sel)
  then show ?thesis
    by (simp add: run run2 evs res st)
qed

theorem service_selector_witness:
  "\<exists>res evs s' d deploy svc r.
     Reconcile demoDeps demoControl (TidbClusterObj fooTidb) 0 = (res, evs, s') \<and>
     ApplyDeployment d (Inr deploy) \<in> set evs \<and> ApplyService svc r \<in> set evs \<and>
     pt_Labels (ds_Template (d_Spec d)) ''injected'' = None \<and>
     ss_Selector (svc_Spec svc) ''injected'' = Some ''yes'' \<and>
     ss_Selector (svc_Spec svc) = pt_Labels (ds_Template (d_Spec deploy)) \<and>
     ss_Type (svc_Spec svc) = ''ClusterIP'' \<and>
     map sp_Port (ss_Ports (svc_Spec svc)) = [10261, 10262]"
proof -
  obtain d where build: "getTidbDiscoveryDeployment demoDeps (TidbClusterObj fooTidb) = Inr d"
    using demo_build_Tidb by blast
  from demo_run [OF build, of 0] obtain role sa rb deploy svc where
    run: "Reconcile demoDeps demoControl (TidbClusterObj fooTidb) 0 =
       (None, [ApplyRole role (Inr role), ApplyServiceAccount sa (Inr sa),
               ApplyRoleBinding rb (Inr rb), ApplyDeployment d (Inr deploy),
               ApplyService svc (Inr svc)], 0 + 5)" and
    inj: "pt_Labels (ds_Template (d_Spec deploy)) =
       (pt_Labels (ds_Template (d_Spec d)))(''injected'' \<mapsto> ''yes'')"
    by blast
  have ev: "ApplyService svc (Inr svc) \<in> set [ApplyRole role (Inr role), ApplyServiceAccount sa (Inr sa),
               ApplyRoleBinding rb (Inr rb), ApplyDeployment d (Inr deploy),
               ApplyService svc (Inr svc)]"
    by simp
  from service_selector [OF run ev] have
    sel: "ss_Selector (svc_Spec svc) = pt_Labels (ds_Template (d_Spec deploy))" and
    ty: "ss_Type (svc_Spec svc) = ''ClusterIP''" and
    ports: "ss_Ports (svc_Spec svc) =
             [ \<lparr> sp_Name = ''discovery'', sp_Port = 10261, sp_TargetPort = 10261, sp_Protocol = ''TCP'' \<rparr>,
               \<lparr> sp_Name = ''proxy'', sp_Port = 10262, sp_TargetPort = 10262, sp_Protocol = ''TCP'' \<rparr> ]"
    by auto
  from build_shape [OF build] obtain meta l base where
    ps: "discoveryPodSpec demoDeps (TidbClusterObj fooTidb) = Inr (meta, l, base, podSpecOf d)" and
    lab: "pt_Labels (ds_Template (d_Spec d)) = CombineStringMap l (ca_Labels base)"
    by blast
  from discoveryPodSpec_shape [OF ps] have
    base: "base = demoBase" and
    l: "l = label_Discovery demoDeps (label_Instance demoDeps ''foo'' (label_New demoDeps))"
    by (auto simp: getDiscoveryMeta_Tidb fooTidb_sel)
  have none: "pt_Labels (ds_Template (d_Spec d)) ''injected'' = None"
    by (simp add: lab base l CombineStringMap_def map_add_def label_Discovery_def
        label_Instance_def demoDeps_sel demoBase_sel)
  show ?thesis
    apply (rule exI [of _ None])
    apply (rule exI [of _ "[ApplyRole role (Inr role), ApplyServiceAccount sa (Inr sa),
               ApplyRoleBinding rb (Inr rb), ApplyDeployment d (Inr deploy),
               ApplyService svc (Inr svc)]"])
    apply (rule exI [of _ 5], rule exI [of _ d], rule exI [of _ deploy], rule exI [of _ svc])
    apply (rule exI [of _ "Inr svc"])
    using run none by (simp add: sel ty ports inj)
qed

theorem fingerprint_deterministic_witness:
  "\<exists>d r1 r2.
     ApplyDeployment d r1 \<in> set (fst (snd (Reconcile demoDeps demoControl (TidbClusterObj fooTidb) 0))) \<and>
     ApplyDeployment d r2 \<in> set (fst (snd (Reconcile demoDeps demoControl (TidbClusterObj fooTidb) 5))) \<and>
     om_Annotations (d_ObjectMeta d) ''last-applied-podtemplate'' = Some ''foo-discovery:discovery'' \<and>
     map request (fst (snd (Reconcile demoDeps demoControl (TidbClusterObj fooTidb) 0))) =
     map request (fst (snd (Reconcile demoDeps demoControl (TidbClusterObj fooTidb) 5))) \<and>
     prefix (map request (fst (snd (Reconcile demoDeps failingControl (TidbClusterObj fooTidb) 9))))
            (map request (fst (snd (Reconcile demoDeps demoControl (TidbClusterObj fooTidb) 0))))"
proof -
  obtain d where build: "getTidbDiscoveryDeployment demoDeps (TidbClusterObj fooTidb) = Inr d"
    using demo_build_Tidb by blast
  from demo_run [OF build, of 0] obtain role sa rb deploy svc where
    run1: "Reconcile demoDeps demoControl (TidbClusterObj fooTidb) 0 =
       (None, [ApplyRole role (Inr role), ApplyServiceAccount sa (Inr sa),
               ApplyRoleBinding rb (Inr rb), ApplyDeployment d (Inr deploy),
               ApplyService svc (Inr svc)], 0 + 5)" and
    lab1: "pt_Labels (ds_Template (d_Spec deploy)) =
       (pt_Labels (ds_Template (d_Spec d)))(''injected'' \<mapsto> ''yes'')"
    by blast
  from demo_run [OF build, of 5] obtain role' sa' rb' deploy' svc' where
    run2: "Reconcile demoDeps demoControl (TidbClusterObj fooTidb) 5 =
       (None, [ApplyRole role' (Inr role'), ApplyServiceAccount sa' (Inr sa'),
               ApplyRoleBinding rb' (Inr rb'), ApplyDeployment d (Inr deploy'),
               ApplyService svc' (Inr svc')], 5 + 5)" and
    lab2: "pt_Labels (ds_Template (d_Spec deploy')) =
       (pt_Labels (ds_Template (d_Spec d)))(''injected'' \<mapsto> ''yes'')"
    by blast
  from demo_run_failing [of 9] obtain role'' sa'' where
    run3: "Reconcile demoDeps failingControl (TidbClusterObj fooTidb) 9 =
       (Some (RequeueError ''error creating or updating discovery serviceaccount: conflict''),
        [ApplyRole role'' (Inr role''), ApplyServiceAccount sa'' (Inl ''conflict'')], 9 + 2)"
    by blast
  note two = fingerprint_deterministic [OF run1 run2]
  note three = fingerprint_deterministic [OF run3 run1]
  from two have svcs: "svc = svc'"
    using lab1 lab2 by (auto simp del: fun_upd_apply)
  from two have reqs: "role = role' \<and> sa = sa' \<and> rb = rb'"
    by auto
  from two obtain b where
    fp: "json_Marshal demoDeps (podSpecOf d) = Inr b"
        "om_Annotations (d_ObjectMeta d) (LastAppliedPodTemplate demoDeps) = Some b"
    by auto
  from three have pre: "role'' = role \<and> sa'' = sa"
    by auto
  from build_podSpec [OF build] demo_podSpec_Tidb have
    "ps_ServiceAccountName (podSpecOf d) = ''foo-discovery''"
    "map c_Name (ps_Containers (podSpecOf d)) = [''discovery'']"
    by (auto simp: discoveryContainer_name)
  with fp have b: "b = ''foo-discovery:discovery''"
    by (simp add: demoDeps_sel)
  show ?thesis
    apply (rule exI [of _ d], rule exI [of _ "Inr deploy"], rule exI [of _ "Inr deploy'"])
    using fp(2) by (simp add: run1 run2 run3 svcs reqs pre b demoDeps_sel)
qed

end
